theory Spec2Isabelle
  imports Main "HOL-Library.Sublist"
begin

section \<open>Addresses (the JID values of the package @xmpp/jid)\<close>

text \<open>
  The registry in \<^verbatim>\<open>GatewayMUCMembership.ts\<close> works on \<^verbatim>\<open>JID\<close> objects and on the
  function \<^verbatim>\<open>jid\<close> of the external package \<^verbatim>\<open>@xmpp/jid\<close>. The package is not part of
  the repository; the three operations the registry uses are written out here as the
  package documents them:
  \<^item> a JID has the fields \<^verbatim>\<open>local\<close>, \<^verbatim>\<open>domain\<close> and \<^verbatim>\<open>resource\<close>, an absent part being
    the empty string;
  \<^item> \<^verbatim>\<open>toString()\<close> gives \<^verbatim>\<open>local@domain/resource\<close>, leaving out \<^verbatim>\<open>local@\<close> and
    \<^verbatim>\<open>/resource\<close> when the part is empty;
  \<^item> \<^verbatim>\<open>jid(s)\<close> cuts the resource at the first \<^verbatim>\<open>/\<close> and then the local part at the
    first \<^verbatim>\<open>@\<close>, and throws a TypeError when the domain is empty.

  The constructor of the package also folds case and escapes the local part. Both are
  the identity on the fields of a JID that was constructed already, and they are left
  out: a value of the record stands for a constructed JID object, and a string that
  \<open>jid\<close> reads is taken in the form \<^verbatim>\<open>toString()\<close> prints, in lower case and with the
  local part escaped. On a string in another form \<open>jid\<close> keeps the characters that the
  package would fold or escape.
\<close>

record JID =
  local :: string
  domain :: string
  resource :: string

datatype error = InvalidDomain

definition toString :: "JID \<Rightarrow> string" where
  "toString j =
     (let s = domain j;
          s = (if local j \<noteq> [] then local j @ ''@'' @ s else s)
      in if resource j \<noteq> [] then s @ ''/'' @ resource j else s)"

text \<open>\<^verbatim>\<open>indexOf(c)\<close> with the two \<^verbatim>\<open>slice\<close> calls around the position found.\<close>

definition cut_at :: "char \<Rightarrow> string \<Rightarrow> (string \<times> string) option" where
  "cut_at c s =
     (if c \<in> set s then Some (takeWhile (\<lambda>x. x \<noteq> c) s, tl (dropWhile (\<lambda>x. x \<noteq> c) s))
      else None)"

definition jid :: "string \<Rightarrow> error + JID" where
  "jid s =
     (let (s1, res) = (case cut_at (CHR ''/'') s of Some (a, r) \<Rightarrow> (a, r) | None \<Rightarrow> (s, []));
          (loc, dom) = (case cut_at (CHR ''@'') s1 of Some (l, d) \<Rightarrow> (l, d) | None \<Rightarrow> ([], s1))
      in if dom = [] then Inl InvalidDomain
         else Inr \<lparr>local = loc, domain = dom, resource = res\<rparr>)"

text \<open>An argument of type \<^verbatim>\<open>string|JID\<close>, and the conversion
  \<^verbatim>\<open>typeof(realJid) === "string" ? jid(realJid) : realJid\<close>.\<close>

definition as_jid :: "string + JID \<Rightarrow> error + JID" where
  "as_jid a = (case a of Inl s \<Rightarrow> jid s | Inr j \<Rightarrow> Inr j)"

section \<open>JavaScript sets\<close>

text \<open>
  A \<^verbatim>\<open>Set\<close> iterates in insertion order, so it is a list without duplicates:
  \<^verbatim>\<open>add\<close> appends a value that is not there yet, \<^verbatim>\<open>delete\<close> takes the value out,
  \<^verbatim>\<open>new Set(array)\<close> adds the entries of the array from left to right.
\<close>

definition Set_add :: "'a \<Rightarrow> 'a list \<Rightarrow> 'a list" where
  "Set_add x s = (if x \<in> set s then s else s @ [x])"

definition Set_delete :: "'a \<Rightarrow> 'a list \<Rightarrow> 'a list" where
  "Set_delete x s = removeAll x s"

definition new_Set :: "'a list \<Rightarrow> 'a list" where
  "new_Set xs = foldl (\<lambda>s x. Set_add x s) [] xs"

section \<open>The membership registry\<close>

text \<open>
  \<^verbatim>\<open>IGatewayMember\<close> with its two variants. The field \<^verbatim>\<open>type\<close> is the constructor.
\<close>

datatype IGatewayMember =
    IGatewayMemberMatrix (anonymousJid: JID) (matrixId: string)
  | IGatewayMemberXmpp (anonymousJid: JID) (matrixId: string) (realJid: JID)
      (devices: "string list")

definition is_xmpp :: "IGatewayMember \<Rightarrow> bool" where
  "is_xmpp s = (case s of IGatewayMemberXmpp _ _ _ _ \<Rightarrow> True | _ \<Rightarrow> False)"

definition is_matrix :: "IGatewayMember \<Rightarrow> bool" where
  "is_matrix s = (case s of IGatewayMemberMatrix _ _ \<Rightarrow> True | _ \<Rightarrow> False)"

text \<open>
  The registry is the map \<^verbatim>\<open>members\<close> from a chat name to a \<^verbatim>\<open>Set\<close> of member objects.
  The set holds objects by reference, and every \<^verbatim>\<open>add\<close> in the class passes an object
  literal, a new object: a room is the list of its members in insertion order, and an
  insertion always appends.

  A member object found by \<^verbatim>\<open>find\<close> is the first one in the room that passes the test of
  the lookup. A member equal to it field by field passes the same test, so the object
  found is also the first member of the room equal to it: changing or deleting that
  object is changing or deleting the first equal entry of the list
  (\<open>replace1\<close>, \<open>remove1\<close>).
\<close>

record GatewayMUCMembership =
  members :: "string \<rightharpoonup> IGatewayMember list"

definition new_GatewayMUCMembership :: GatewayMUCMembership where
  "new_GatewayMUCMembership = \<lparr>members = Map.empty\<rparr>"

fun replace1 :: "'a \<Rightarrow> 'a \<Rightarrow> 'a list \<Rightarrow> 'a list" where
  "replace1 x y [] = []"
| "replace1 x y (z # zs) = (if z = x then y # zs else z # replace1 x y zs)"

definition hasMembershipForRoom :: "string \<Rightarrow> GatewayMUCMembership \<Rightarrow> bool" where
  "hasMembershipForRoom chatName st = (members st chatName \<noteq> None)"

definition getMembers :: "string \<Rightarrow> GatewayMUCMembership \<Rightarrow> IGatewayMember list" where
  "getMembers chatName st = (case members st chatName of Some s \<Rightarrow> s | None \<Rightarrow> [])"

definition getXmppMembers :: "string \<Rightarrow> GatewayMUCMembership \<Rightarrow> IGatewayMember list" where
  "getXmppMembers chatName st = filter is_xmpp (getMembers chatName st)"

definition getMatrixMembers :: "string \<Rightarrow> GatewayMUCMembership \<Rightarrow> IGatewayMember list" where
  "getMatrixMembers chatName st = filter is_matrix (getMembers chatName st)"

definition getMemberByAnonJid ::
  "string \<Rightarrow> string \<Rightarrow> GatewayMUCMembership \<Rightarrow> IGatewayMember option" where
  "getMemberByAnonJid chatName anonJid st =
     find (\<lambda>user. toString (anonymousJid user) = anonJid) (getMembers chatName st)"

definition getMemberByMatrixId ::
  "string \<Rightarrow> string \<Rightarrow> GatewayMUCMembership \<Rightarrow> IGatewayMember option" where
  "getMemberByMatrixId chatName mxid st =
     find (\<lambda>user. matrixId user = mxid) (getMembers chatName st)"

definition getMatrixMemberByMatrixId ::
  "string \<Rightarrow> string \<Rightarrow> GatewayMUCMembership \<Rightarrow> IGatewayMember option" where
  "getMatrixMemberByMatrixId chatName mxid st =
     find (\<lambda>user. matrixId user = mxid) (getMatrixMembers chatName st)"

definition getXmppMemberByRealJid ::
  "string \<Rightarrow> string + JID \<Rightarrow> GatewayMUCMembership \<Rightarrow> error + IGatewayMember option" where
  "getXmppMemberByRealJid chatName rj st =
     (case as_jid rj of
        Inl e \<Rightarrow> Inl e
      | Inr j \<Rightarrow>
          (let strippedJid = local j @ ''@'' @ domain j
           in Inr (find (\<lambda>user. toString (realJid user) = strippedJid)
                     (getXmppMembers chatName st))))"

definition getXmppMemberByMatrixId ::
  "string \<Rightarrow> string \<Rightarrow> GatewayMUCMembership \<Rightarrow> IGatewayMember option" where
  "getXmppMemberByMatrixId chatName mxid st =
     find (\<lambda>user. matrixId user = mxid) (getXmppMembers chatName st)"

text \<open>
  \<^verbatim>\<open>getXmppMembersDevices\<close>. The constant \<^verbatim>\<open>FLAT_SUPPORTED\<close> depends on the runtime and
  is a parameter. \<^verbatim>\<open>flat()\<close> on an array of arrays of strings is \<open>concat\<close>;
  \<^verbatim>\<open>reduce((acc, val) => [...acc, ...val], [])\<close> is a left fold.
\<close>

definition getXmppMembersDevices ::
  "bool \<Rightarrow> string \<Rightarrow> GatewayMUCMembership \<Rightarrow> string list" where
  "getXmppMembersDevices FLAT_SUPPORTED chatName st =
     (if FLAT_SUPPORTED
      then new_Set (concat (map (\<lambda>u. devices u) (getXmppMembers chatName st)))
      else new_Set (foldl (\<lambda>acc val. acc @ val) []
                      (map (\<lambda>u. devices u) (getXmppMembers chatName st))))"

definition addMatrixMember ::
  "string \<Rightarrow> string \<Rightarrow> JID \<Rightarrow> GatewayMUCMembership \<Rightarrow> bool \<times> GatewayMUCMembership" where
  "addMatrixMember chatName mxid anon st =
     (if getMatrixMemberByMatrixId chatName mxid st \<noteq> None then (False, st)
      else
        (let s = (case members st chatName of Some s \<Rightarrow> s | None \<Rightarrow> [])
         in (True,
             st\<lparr>members := (members st)(chatName \<mapsto> s @ [IGatewayMemberMatrix anon mxid])\<rparr>)))"

definition addXmppMember ::
  "string \<Rightarrow> JID \<Rightarrow> JID \<Rightarrow> string \<Rightarrow> GatewayMUCMembership
     \<Rightarrow> error + (bool \<times> GatewayMUCMembership)" where
  "addXmppMember chatName rj anon mxid st =
     (case jid (local rj @ ''@'' @ domain rj) of
        Inl e \<Rightarrow> Inl e
      | Inr strippedDevice \<Rightarrow>
          (case getXmppMemberByRealJid chatName (Inl (toString strippedDevice)) st of
             Inl e \<Rightarrow> Inl e
           | Inr (Some member) \<Rightarrow>
               Inr (False,
                    st\<lparr>members := (members st)(chatName \<mapsto>
                         replace1 member
                           (IGatewayMemberXmpp (anonymousJid member) (matrixId member)
                              (realJid member) (Set_add (toString rj) (devices member)))
                           (getMembers chatName st))\<rparr>)
           | Inr None \<Rightarrow>
               (let s = (case members st chatName of Some s \<Rightarrow> s | None \<Rightarrow> [])
                in Inr (True,
                        st\<lparr>members := (members st)(chatName \<mapsto>
                             s @ [IGatewayMemberXmpp anon mxid strippedDevice
                                    (new_Set [toString rj])])\<rparr>))))"

definition removeMatrixMember ::
  "string \<Rightarrow> string \<Rightarrow> GatewayMUCMembership \<Rightarrow> bool \<times> GatewayMUCMembership" where
  "removeMatrixMember chatName mxid st =
     (case getMatrixMemberByMatrixId chatName mxid st of
        None \<Rightarrow> (False, st)
      | Some member \<Rightarrow>
          (case members st chatName of
             None \<Rightarrow> (False, st)
           | Some s \<Rightarrow>
               (member \<in> set s, st\<lparr>members := (members st)(chatName \<mapsto> remove1 member s)\<rparr>)))"

text \<open>The last two lines of \<^verbatim>\<open>removeXmppMember\<close>:
  \<^verbatim>\<open>const set = this.members.get(chatName); return set ? set.delete(member) : true;\<close>\<close>

definition delete_member ::
  "string \<Rightarrow> IGatewayMember \<Rightarrow> GatewayMUCMembership \<Rightarrow> bool \<times> GatewayMUCMembership" where
  "delete_member chatName member st =
     (case members st chatName of
        None \<Rightarrow> (True, st)
      | Some s \<Rightarrow>
          (member \<in> set s, st\<lparr>members := (members st)(chatName \<mapsto> remove1 member s)\<rparr>))"

definition removeXmppMember ::
  "string \<Rightarrow> string + JID \<Rightarrow> GatewayMUCMembership
     \<Rightarrow> error + (bool \<times> GatewayMUCMembership)" where
  "removeXmppMember chatName arg st =
     (case as_jid arg of
        Inl e \<Rightarrow> Inl e
      | Inr rj \<Rightarrow>
          (case getXmppMemberByRealJid chatName (Inr rj) st of
             Inl e \<Rightarrow> Inl e
           | Inr None \<Rightarrow> Inr (False, st)
           | Inr (Some member) \<Rightarrow>
               (if resource rj \<noteq> [] then
                  (let member' = IGatewayMemberXmpp (anonymousJid member) (matrixId member)
                                   (realJid member) (Set_delete (toString rj) (devices member));
                       st' = st\<lparr>members := (members st)(chatName \<mapsto>
                               replace1 member member' (getMembers chatName st))\<rparr>
                   in if devices member' \<noteq> [] then Inr (False, st')
                      else Inr (delete_member chatName member' st'))
                else Inr (delete_member chatName member st))))"

section \<open>Vocabulary of the properties\<close>

text \<open>
  The specification calls the real identity of a user the bare address
  \<^verbatim>\<open>local@domain\<close>, local part and domain, with no resource; a full device address is a
  real identity with a resource. \<open>is_user_address\<close> says that an address has both
  parts and that they are parts: the local part holds no \<^verbatim>\<open>@\<close> and no \<^verbatim>\<open>/\<close> (the
  package escapes them) and the domain no \<^verbatim>\<open>/\<close>. \<open>bare\<close> is the real identity of an
  address.
\<close>

definition is_user_address :: "JID \<Rightarrow> bool" where
  "is_user_address j \<longleftrightarrow>
     local j \<noteq> [] \<and> CHR ''@'' \<notin> set (local j) \<and> CHR ''/'' \<notin> set (local j) \<and>
     domain j \<noteq> [] \<and> CHR ''/'' \<notin> set (domain j)"

definition bare :: "JID \<Rightarrow> JID" where
  "bare j = \<lparr>local = local j, domain = domain j, resource = []\<rparr>"

text \<open>
  A call of one of the four mutating operations of the registry, and a caller that makes
  the calls of a list one after the other. A call that throws has changed nothing (the
  only throwing step, \<^verbatim>\<open>jid\<close>, comes before every assignment), so the caller goes on
  with the registry as it was.
\<close>

datatype registry_call =
    AddMatrixMember string string JID
  | AddXmppMember string JID JID string
  | RemoveMatrixMember string string
  | RemoveXmppMember string "string + JID"

fun call :: "registry_call \<Rightarrow> GatewayMUCMembership \<Rightarrow> GatewayMUCMembership" where
  "call (AddMatrixMember chatName mxid anon) st = snd (addMatrixMember chatName mxid anon st)"
| "call (AddXmppMember chatName rj anon mxid) st =
     (case addXmppMember chatName rj anon mxid st of Inl e \<Rightarrow> st | Inr r \<Rightarrow> snd r)"
| "call (RemoveMatrixMember chatName mxid) st = snd (removeMatrixMember chatName mxid st)"
| "call (RemoveXmppMember chatName a) st =
     (case removeXmppMember chatName a st of Inl e \<Rightarrow> st | Inr r \<Rightarrow> snd r)"

definition calls :: "registry_call list \<Rightarrow> GatewayMUCMembership \<Rightarrow> GatewayMUCMembership" where
  "calls cs st = foldl (\<lambda>s c. call c s) st cs"

fun users_only :: "registry_call \<Rightarrow> bool" where
  "users_only (AddXmppMember chatName rj anon mxid) = is_user_address rj"
| "users_only _ = True"

text \<open>
  The invariant of a room: no two Matrix members with one \<^verbatim>\<open>matrixId\<close>, and no two
  XMPP members whose \<^verbatim>\<open>realJid\<close> prints as the same address (the test of the lookup
  \<^verbatim>\<open>getXmppMemberByRealJid\<close>).
\<close>

definition one_entry_each :: "string \<Rightarrow> GatewayMUCMembership \<Rightarrow> bool" where
  "one_entry_each chatName st \<longleftrightarrow>
     distinct (map matrixId (getMatrixMembers chatName st)) \<and>
     distinct (map (\<lambda>u. toString (realJid u)) (getXmppMembers chatName st))"

section \<open>Entity encoding (the package he)\<close>

text \<open>
  The stanza classes encode text with \<^verbatim>\<open>he.encode\<close> of the external package \<^verbatim>\<open>he\<close>,
  called with its default options. With them \<^verbatim>\<open>encode\<close> replaces every character of
  \<^verbatim>\<open>regexEscape\<close> (the double quote, \<^verbatim>\<open>&\<close>, the apostrophe, \<^verbatim>\<open><\<close>, \<^verbatim>\<open>>\<close> and the
  backquote) and every character that is not printable ASCII (\<^verbatim>\<open>regexBmpWhitelist\<close>) by
  the hexadecimal reference \<^verbatim>\<open>&#xHH;\<close> of its code, in upper case and without leading
  zeros, and keeps every other character. A \<open>char\<close> is a code unit below 256, and the
  two tables are cut there.
\<close>

definition hexdigit :: "nat \<Rightarrow> char" where
  "hexdigit n = ''0123456789ABCDEF'' ! n"

definition hex :: "nat \<Rightarrow> string" where
  "hex n = (if n < 16 then [hexdigit n] else [hexdigit (n div 16), hexdigit (n mod 16)])"

definition regexEscape :: "char \<Rightarrow> bool" where
  "regexEscape c \<longleftrightarrow>
     c \<in> set [CHR 0x22, CHR ''&'', CHR 0x27, CHR ''<'', CHR ''>'', CHR 0x60]"

definition regexBmpWhitelist :: "char \<Rightarrow> bool" where
  "regexBmpWhitelist c \<longleftrightarrow>
     (let n = (of_char c :: nat)
      in (1 \<le> n \<and> n \<le> 9) \<or> n = 11 \<or> n = 12 \<or> (14 \<le> n \<and> n \<le> 31) \<or> n = 127 \<or>
         n = 129 \<or> n = 141 \<or> n = 143 \<or> n = 144 \<or> n = 157 \<or> 160 \<le> n)"

definition escapeBmpSymbol :: "char \<Rightarrow> string" where
  "escapeBmpSymbol c = ''&#x'' @ hex (of_char c) @ '';''"

definition he_encode :: "string \<Rightarrow> string" where
  "he_encode s =
     concat (map (\<lambda>c. if regexEscape c \<or> regexBmpWhitelist c then escapeBmpSymbol c else [c]) s)"

section \<open>JavaScript values in templates\<close>

text \<open>
  A value of type \<^verbatim>\<open>string|undefined\<close> is a \<open>string option\<close>. It is truthy when it is a
  string that is not empty, and a template literal prints \<^verbatim>\<open>undefined\<close> as the word.
  An optional parameter with a default takes the default when the argument is
  \<^verbatim>\<open>undefined\<close>.
\<close>

definition truthy :: "string option \<Rightarrow> bool" where
  "truthy v = (case v of None \<Rightarrow> False | Some s \<Rightarrow> s \<noteq> [])"

definition str :: "string option \<Rightarrow> string" where
  "str v = (case v of None \<Rightarrow> ''undefined'' | Some s \<Rightarrow> s)"

definition default_to :: "'a \<Rightarrow> 'a option \<Rightarrow> 'a" where
  "default_to d v = (case v of None \<Rightarrow> d | Some x \<Rightarrow> x)"

definition apos :: string where
  "apos = [CHR 0x27]"

definition newline :: string where
  "newline = [CHR 0x0A]"

section \<open>The stanza classes\<close>

subsection \<open>StzaBase\<close>

text \<open>
  The private fields \<^verbatim>\<open>_from\<close>, \<^verbatim>\<open>_to\<close> and \<^verbatim>\<open>_id\<close> with their accessors. A subclass
  is a record extending this one, and the accessors work on every extension.
\<close>

record StzaBase =
  priv_from :: string
  priv_to :: string
  priv_id :: string

definition get_from :: "'a StzaBase_scheme \<Rightarrow> string" where
  "get_from this = priv_from this"

definition set_from :: "string \<Rightarrow> 'a StzaBase_scheme \<Rightarrow> 'a StzaBase_scheme" where
  "set_from val this = this\<lparr>priv_from := he_encode val\<rparr>"

definition get_to :: "'a StzaBase_scheme \<Rightarrow> string" where
  "get_to this = priv_to this"

definition set_to :: "string \<Rightarrow> 'a StzaBase_scheme \<Rightarrow> 'a StzaBase_scheme" where
  "set_to val this = this\<lparr>priv_to := he_encode val\<rparr>"

definition get_id :: "'a StzaBase_scheme \<Rightarrow> string option" where
  "get_id this = (if priv_id this \<noteq> [] then Some (priv_id this) else None)"

definition set_id :: "string option \<Rightarrow> 'a StzaBase_scheme \<Rightarrow> 'a StzaBase_scheme" where
  "set_id val this = (if \<not> truthy val then this else this\<lparr>priv_id := he_encode (str val)\<rparr>)"

text \<open>The body of the constructor, run on the new object.\<close>

definition StzaBase_constructor ::
  "string \<Rightarrow> string \<Rightarrow> string option \<Rightarrow> 'a StzaBase_scheme \<Rightarrow> 'a StzaBase_scheme" where
  "StzaBase_constructor from' to' id' this = set_id id' (set_to to' (set_from from' this))"

subsection \<open>StzaPresence and its subclasses\<close>

record StzaPresence = StzaBase +
  includeXContent :: bool
  presenceType :: "string option"

definition new_StzaPresence ::
  "string \<Rightarrow> string \<Rightarrow> string option \<Rightarrow> string option \<Rightarrow> StzaPresence" where
  "new_StzaPresence from' to' id' presenceType' =
     StzaBase_constructor from' to' id'
       \<lparr>priv_from = [], priv_to = [], priv_id = [],
        includeXContent = True, presenceType = presenceType'\<rparr>"

text \<open>
  The getter \<^verbatim>\<open>xml\<close> of \<^verbatim>\<open>StzaPresence\<close> reads \<^verbatim>\<open>this.xContent\<close>, \<^verbatim>\<open>this.xProtocol\<close>
  and \<^verbatim>\<open>this.presenceContent\<close>, which the subclasses override: they are arguments.
\<close>

definition StzaPresence_xml_with ::
  "string \<Rightarrow> string \<Rightarrow> string \<Rightarrow> 'a StzaPresence_scheme \<Rightarrow> string" where
  \<open>StzaPresence_xml_with xContent xProtocol presenceContent this =
     (let type = (if truthy (presenceType this)
                  then '' type='' @ apos @ str (presenceType this) @ apos else []);
          id = (if truthy (get_id this) then '' id="'' @ str (get_id this) @ ''"'' else []);
          content =
            (if includeXContent this
             then (if xContent \<noteq> []
                   then ''<x xmlns='http://jabber.org/protocol/'' @ xProtocol @ apos @ ''>''
                        @ xContent @ ''</x>''
                   else ''<x xmlns='http://jabber.org/protocol/muc'/>'')
             else [])
      in ''<presence from="'' @ get_from this @ ''" to="'' @ get_to this @ ''"'' @ id @ type
         @ ''>'' @ content @ presenceContent @ ''</presence>'')\<close>

definition StzaPresence_xml :: "StzaPresence \<Rightarrow> string" where
  "StzaPresence_xml this = StzaPresence_xml_with [] ''muc'' [] this"

record StzaPresenceItem = StzaPresence +
  affiliation :: string
  role :: string
  self :: bool
  item_jid :: string

definition new_StzaPresenceItem ::
  "string \<Rightarrow> string \<Rightarrow> string option \<Rightarrow> string option \<Rightarrow> string option \<Rightarrow> bool option
     \<Rightarrow> string option \<Rightarrow> string option \<Rightarrow> StzaPresenceItem" where
  "new_StzaPresenceItem from' to' id' affiliation' role' self' jid' itemType' =
     StzaBase_constructor from' to' id'
       \<lparr>priv_from = [], priv_to = [], priv_id = [],
        includeXContent = True, presenceType = Some (default_to [] itemType'),
        affiliation = default_to ''member'' affiliation',
        role = default_to ''participant'' role',
        self = default_to False self',
        item_jid = default_to [] jid'\<rparr>"

definition StzaPresenceItem_xContent :: "StzaPresenceItem \<Rightarrow> string" where
  \<open>StzaPresenceItem_xContent this =
     (let statusCode = (if self this then ''<status code='110'/>'' else []);
          jid = (if item_jid this \<noteq> [] then '' jid='' @ apos @ item_jid this @ apos else [])
      in ''<item affiliation='' @ apos @ affiliation this @ apos @ jid
         @ '' role='' @ apos @ role this @ apos @ ''/>'' @ statusCode)\<close>

definition StzaPresenceItem_xml :: "StzaPresenceItem \<Rightarrow> string" where
  "StzaPresenceItem_xml this =
     StzaPresence_xml_with (StzaPresenceItem_xContent this) ''muc#user'' [] this"

record StzaPresenceError = StzaPresence +
  error_by :: string
  errType :: string
  innerError :: string

definition new_StzaPresenceError ::
  "string \<Rightarrow> string \<Rightarrow> string \<Rightarrow> string \<Rightarrow> string \<Rightarrow> string \<Rightarrow> StzaPresenceError" where
  "new_StzaPresenceError from' to' id' by' errType' innerError' =
     StzaBase_constructor from' to' (Some id')
       \<lparr>priv_from = [], priv_to = [], priv_id = [],
        includeXContent = True, presenceType = Some ''error'',
        error_by = by', errType = errType', innerError = innerError'\<rparr>"

definition StzaPresenceError_presenceContent :: "StzaPresenceError \<Rightarrow> string" where
  \<open>StzaPresenceError_presenceContent this =
     ''<error type='' @ apos @ errType this @ apos @ '' by='' @ apos @ error_by this @ apos
     @ ''><'' @ innerError this
     @ '' xmlns='urn:ietf:params:xml:ns:xmpp-stanzas'/></error>''\<close>

definition StzaPresenceError_xml :: "StzaPresenceError \<Rightarrow> string" where
  "StzaPresenceError_xml this =
     StzaPresence_xml_with [] ''muc'' (StzaPresenceError_presenceContent this) this"

text \<open>\<^verbatim>\<open>StzaPresenceJoin\<close> passes no presence type to \<^verbatim>\<open>super\<close> and assigns its own
  parameter property afterwards.\<close>

definition new_StzaPresenceJoin ::
  "string \<Rightarrow> string \<Rightarrow> string option \<Rightarrow> string option \<Rightarrow> StzaPresence" where
  "new_StzaPresenceJoin from' to' id' presenceType' =
     (new_StzaPresence from' to' id' None)\<lparr>presenceType := presenceType'\<rparr>"

definition StzaPresenceJoin_xml :: "StzaPresence \<Rightarrow> string" where
  \<open>StzaPresenceJoin_xml this = StzaPresence_xml_with ''<history maxchars='0'/>'' ''muc'' [] this\<close>

definition new_StzaPresencePart :: "string \<Rightarrow> string \<Rightarrow> StzaPresence" where
  "new_StzaPresencePart from' to' =
     set_id None ((new_StzaPresence from' to' None (Some ''unavailable''))
                    \<lparr>includeXContent := False\<rparr>)"

subsection \<open>StzaMessage\<close>

text \<open>
  Modelled from the spec: the interface \<^verbatim>\<open>IBasicProtocolMessage\<close> of
  \<^verbatim>\<open>MessageFormatter.ts\<close>, which is not among the sources. The specification gives the
  record as \<^verbatim>\<open>{body: string, formatted?: [{type, body}], opts?: {attachments?: [{uri}]},
  id?: string}\<close>.
\<close>

record formatted_entry =
  fmt_type :: string
  fmt_body :: string

record attachment =
  uri :: string

record message_opts =
  opts_attachments :: "attachment list option"

record IBasicProtocolMessage =
  msg_body :: string
  msg_formatted :: "formatted_entry list option"
  msg_opts :: "message_opts option"
  msg_id :: "string option"

record StzaMessage = StzaBase +
  html :: string
  body :: string
  attachments :: "string list"
  messageType :: "string option"

text \<open>
  The argument \<^verbatim>\<open>idOrMsg\<close> is absent, a string or a message record; a string has no own
  property \<^verbatim>\<open>body\<close>. \<^verbatim>\<open>uuid()\<close> gives a new token on every call: the token is an
  argument.
\<close>

definition new_StzaMessage ::
  "string \<Rightarrow> string \<Rightarrow> (string + IBasicProtocolMessage) option \<Rightarrow> string option \<Rightarrow> string
     \<Rightarrow> StzaMessage" where
  "new_StzaMessage from' to' idOrMsg messageType' uuid =
     (let this = StzaBase_constructor from' to' None
                   \<lparr>priv_from = [], priv_to = [], priv_id = [],
                    html = [], body = [], attachments = [], messageType = messageType'\<rparr>;
          this =
            (case idOrMsg of
               Some (Inr msg) \<Rightarrow>
                 (let this = this\<lparr>body := msg_body msg\<rparr>;
                      this = (case msg_formatted msg of
                                Some formatted \<Rightarrow>
                                  this\<lparr>html :=
                                    (case find (\<lambda>f. fmt_type f = ''html'') formatted of
                                       Some h \<Rightarrow> fmt_body h
                                     | None \<Rightarrow> [])\<rparr>
                              | None \<Rightarrow> this);
                      this = (case msg_opts msg of
                                Some opts \<Rightarrow>
                                  this\<lparr>attachments :=
                                    map uri (default_to [] (opts_attachments opts))\<rparr>
                              | None \<Rightarrow> this)
                  in set_id (msg_id msg) this)
             | Some (Inl s) \<Rightarrow> (if s \<noteq> [] then set_id (Some s) this else this)
             | None \<Rightarrow> this)
      in set_id (Some (case get_id this of Some i \<Rightarrow> i | None \<Rightarrow> uuid)) this)"

text \<open>
  \<^verbatim>\<open>Array.prototype.toString\<close>, which the template applies to the array
  \<^verbatim>\<open>attachments\<close>: the entries with commas between them.
\<close>

fun join_commas :: "string list \<Rightarrow> string" where
  "join_commas [] = []"
| "join_commas [x] = x"
| "join_commas (x # y # ys) = x @ '','' @ join_commas (y # ys)"

text \<open>
  The getter \<^verbatim>\<open>xml\<close> of \<^verbatim>\<open>StzaMessage\<close> assigns \<^verbatim>\<open>this.body\<close>: it returns the text
  and the object after the call.
\<close>

definition StzaMessage_xml :: "StzaMessage \<Rightarrow> string \<times> StzaMessage" where
  \<open>StzaMessage_xml this =
     (let type = (if truthy (messageType this)
                  then ''type='' @ apos @ str (messageType this) @ apos else []);
          attachments' = map (\<lambda>a. ''<x xmlns='jabber:x:oob'><url>'' @ he_encode a @ ''</url></x>'')
                           (attachments this);
          this = (if length (attachments this) = 1
                  then this\<lparr>body := hd (attachments this)\<rparr> else this)
      in (''<message from="'' @ get_from this @ ''" to="'' @ get_to this
          @ ''" id="'' @ str (get_id this) @ ''" '' @ type @ ''>''
          @ html this @ ''<body>'' @ he_encode (body this) @ ''</body>''
          @ join_commas attachments' @ ''</message>'',
          this))\<close>

record StzaMessageSubject = StzaBase +
  subject :: string

definition new_StzaMessageSubject ::
  "string \<Rightarrow> string \<Rightarrow> string option \<Rightarrow> string option \<Rightarrow> StzaMessageSubject" where
  "new_StzaMessageSubject from' to' id' subject' =
     StzaBase_constructor from' to' id'
       \<lparr>priv_from = [], priv_to = [], priv_id = [], subject = default_to [] subject'\<rparr>"

definition StzaMessageSubject_xml :: "StzaMessageSubject \<Rightarrow> string" where
  \<open>StzaMessageSubject_xml this =
     ''<message from="'' @ get_from this @ ''" to="'' @ get_to this
     @ ''" id="'' @ str (get_id this) @ ''" type='groupchat'>''
     @ ''<subject>'' @ subject this @ ''</subject></message>''\<close>

subsection \<open>The IQ stanzas\<close>

definition new_StzaIqPing :: "string \<Rightarrow> string \<Rightarrow> string \<Rightarrow> string \<Rightarrow> StzaBase" where
  "new_StzaIqPing from' to' id' uuid =
     StzaBase_constructor from' to' (Some (if id' \<noteq> [] then id' else uuid))
       \<lparr>priv_from = [], priv_to = [], priv_id = []\<rparr>"

definition StzaIqPing_xml :: "StzaBase \<Rightarrow> string" where
  \<open>StzaIqPing_xml this =
     ''<iq from='' @ apos @ get_from this @ apos @ '' to='' @ apos @ get_to this @ apos
     @ '' id='' @ apos @ str (get_id this) @ apos @ '' type='get'>'' @ newline
     @ ''    <ping xmlns='urn:xmpp:ping'/>'' @ newline
     @ ''</iq>''\<close>

record StzaIqDisco = StzaBase +
  iqType :: string
  queryType :: string

definition StzaIqDisco_xml_with :: "string \<Rightarrow> 'a StzaIqDisco_scheme \<Rightarrow> string" where
  \<open>StzaIqDisco_xml_with queryContent this =
     ''<iq from='' @ apos @ get_from this @ apos @ '' to='' @ apos @ get_to this @ apos
     @ '' id='' @ apos @ str (get_id this) @ apos
     @ '' type='' @ apos @ iqType this @ apos @ ''>'' @ newline
     @ ''        <query xmlns='http://jabber.org/protocol/disco#'' @ queryType this @ apos
     @ ''>'' @ newline
     @ ''        '' @ queryContent @ ''</query></iq>''\<close>

text \<open>
  The set \<^verbatim>\<open>identity\<close> of \<^verbatim>\<open>StzaIqDiscoInfo\<close> holds objects, and a \<^verbatim>\<open>Set\<close> compares
  objects by reference: an entry is the reference of the object with its fields. The
  class has no method that adds to its two sets; a caller calls \<^verbatim>\<open>identity.add\<close> and
  \<^verbatim>\<open>feature.add\<close> on the public fields.
\<close>

record disco_identity =
  category :: string
  type :: string
  name :: string

record StzaIqDiscoInfo = StzaIqDisco +
  identity :: "(nat \<times> disco_identity) list"
  feature :: "string list"

text \<open>
  The constructor declares \<^verbatim>\<open>from\<close>, \<^verbatim>\<open>to\<close> and \<^verbatim>\<open>id\<close> as parameter properties. The
  compiler turns them into the assignments \<^verbatim>\<open>this.from = from\<close>, \<^verbatim>\<open>this.to = to\<close> and
  \<^verbatim>\<open>this.id = id\<close> after the call of \<^verbatim>\<open>super\<close>, and the assignments run the setters of
  \<^verbatim>\<open>StzaBase\<close>.
\<close>

definition new_StzaIqDiscoInfo :: "string \<Rightarrow> string \<Rightarrow> string \<Rightarrow> StzaIqDiscoInfo" where
  "new_StzaIqDiscoInfo from' to' id' =
     (let this = StzaBase_constructor from' to' (Some id')
                   \<lparr>priv_from = [], priv_to = [], priv_id = [],
                    iqType = ''result'', queryType = ''info'',
                    identity = [], feature = []\<rparr>
      in set_id (Some id') (set_to to' (set_from from' this)))"

definition identity_add :: "nat \<times> disco_identity \<Rightarrow> StzaIqDiscoInfo \<Rightarrow> StzaIqDiscoInfo" where
  "identity_add ident this = this\<lparr>identity := Set_add ident (identity this)\<rparr>"

definition feature_add :: "string \<Rightarrow> StzaIqDiscoInfo \<Rightarrow> StzaIqDiscoInfo" where
  "feature_add feat this = this\<lparr>feature := Set_add feat (feature this)\<rparr>"

definition StzaIqDiscoInfo_queryContent :: "StzaIqDiscoInfo \<Rightarrow> string" where
  \<open>StzaIqDiscoInfo_queryContent this =
     (let identity' = foldl (\<lambda>acc ident. acc
            @ ''<identity category='' @ apos @ category (snd ident) @ apos
            @ '' type='' @ apos @ type (snd ident) @ apos
            @ '' name='' @ apos @ name (snd ident) @ apos @ ''/>'') [] (identity this);
          feature' = foldl (\<lambda>acc feat. acc @ ''<feature var='' @ apos @ feat @ apos @ ''/>'') []
            (feature this)
      in identity' @ feature')\<close>

definition StzaIqDiscoInfo_xml :: "StzaIqDiscoInfo \<Rightarrow> string" where
  "StzaIqDiscoInfo_xml this = StzaIqDisco_xml_with (StzaIqDiscoInfo_queryContent this) this"

subsection \<open>A stanza of any class\<close>

text \<open>
  An object of one of the classes, with the two members of \<^verbatim>\<open>IStza\<close>: \<^verbatim>\<open>type\<close>, and
  \<^verbatim>\<open>xml\<close>, which gives the text and the object after the call (only the getter of
  \<^verbatim>\<open>StzaMessage\<close> makes an assignment).
\<close>

datatype Stza =
    Presence StzaPresence
  | PresenceItem StzaPresenceItem
  | PresenceError StzaPresenceError
  | PresenceJoin StzaPresence
  | PresencePart StzaPresence
  | Message StzaMessage
  | MessageSubject StzaMessageSubject
  | IqPing StzaBase
  | IqDiscoInfo StzaIqDiscoInfo

fun stza_type :: "Stza \<Rightarrow> string" where
  "stza_type (Presence _) = ''presence''"
| "stza_type (PresenceItem _) = ''presence''"
| "stza_type (PresenceError _) = ''presence''"
| "stza_type (PresenceJoin _) = ''presence''"
| "stza_type (PresencePart _) = ''presence''"
| "stza_type (Message _) = ''message''"
| "stza_type (MessageSubject _) = ''message''"
| "stza_type (IqPing _) = ''iq''"
| "stza_type (IqDiscoInfo _) = ''iq''"

fun xml :: "Stza \<Rightarrow> string \<times> Stza" where
  "xml (Presence this) = (StzaPresence_xml this, Presence this)"
| "xml (PresenceItem this) = (StzaPresenceItem_xml this, PresenceItem this)"
| "xml (PresenceError this) = (StzaPresenceError_xml this, PresenceError this)"
| "xml (PresenceJoin this) = (StzaPresenceJoin_xml this, PresenceJoin this)"
| "xml (PresencePart this) = (StzaPresence_xml this, PresencePart this)"
| "xml (Message this) = (fst (StzaMessage_xml this), Message (snd (StzaMessage_xml this)))"
| "xml (MessageSubject this) = (StzaMessageSubject_xml this, MessageSubject this)"
| "xml (IqPing this) = (StzaIqPing_xml this, IqPing this)"
| "xml (IqDiscoInfo this) = (StzaIqDiscoInfo_xml this, IqDiscoInfo this)"

section \<open>Vocabulary of the stanza properties\<close>

text \<open>
  A text holds the reserved characters only in entity-encoded form when every \<^verbatim>\<open>&\<close>
  in it starts a reference \<^verbatim>\<open>&#x\<close>, hexadecimal digits, \<^verbatim>\<open>;\<close> and no \<^verbatim>\<open><\<close>, \<^verbatim>\<open>>\<close>,
  double quote, apostrophe or backquote stands in it. The scanner reads the text from
  left to right; \<open>None\<close> is a text that is refused.
\<close>

datatype scan = Text | Amp | Hash | Digits0 | Digits

definition is_hexdigit :: "char \<Rightarrow> bool" where
  "is_hexdigit c \<longleftrightarrow>
     (let n = (of_char c :: nat) in (48 \<le> n \<and> n \<le> 57) \<or> (65 \<le> n \<and> n \<le> 70))"

fun scan_char :: "scan option \<Rightarrow> char \<Rightarrow> scan option" where
  "scan_char None c = None"
| "scan_char (Some Text) c =
     (if c = CHR ''&'' then Some Amp
      else if c \<in> set [CHR ''<'', CHR ''>'', CHR 0x22, CHR 0x27, CHR 0x60] then None
      else Some Text)"
| "scan_char (Some Amp) c = (if c = CHR ''#'' then Some Hash else None)"
| "scan_char (Some Hash) c = (if c = CHR ''x'' then Some Digits0 else None)"
| "scan_char (Some Digits0) c = (if is_hexdigit c then Some Digits else None)"
| "scan_char (Some Digits) c =
     (if is_hexdigit c then Some Digits else if c = CHR '';'' then Some Text else None)"

definition entity_encoded :: "string \<Rightarrow> bool" where
  "entity_encoded s \<longleftrightarrow> foldl scan_char (Some Text) s = Some Text"

text \<open>
  A rendered stanza starts with its tag and the attributes \<^verbatim>\<open>from\<close>, \<^verbatim>\<open>to\<close> and, when
  there is one, \<^verbatim>\<open>id\<close>, in the quotes \<open>q\<close>, and the three values are entity-encoded.
\<close>

definition quot :: string where
  "quot = [CHR 0x22]"

definition starts_with_attrs ::
  "string \<Rightarrow> string \<Rightarrow> string \<Rightarrow> string \<Rightarrow> string \<Rightarrow> string option \<Rightarrow> bool" where
  "starts_with_attrs text tag q F T I \<longleftrightarrow>
     prefix (''<'' @ tag @ '' from='' @ q @ F @ q @ '' to='' @ q @ T @ q
             @ (case I of None \<Rightarrow> [] | Some i \<Rightarrow> '' id='' @ q @ i @ q)) text \<and>
     entity_encoded F \<and> entity_encoded T \<and>
     (case I of None \<Rightarrow> True | Some i \<Rightarrow> entity_encoded i)"

text \<open>
  The text of the attribute \<^verbatim>\<open>id\<close> where a template prints \<^verbatim>\<open>this.id\<close> whatever it is,
  and the one of a \<^verbatim>\<open>StzaMessage\<close>, whose constructor passes the identifier it has
  stored through the setter once more.
\<close>

definition printed_id :: "string option \<Rightarrow> string" where
  "printed_id v = (if truthy v then he_encode (str v) else ''undefined'')"

definition message_id_text :: "(string + IBasicProtocolMessage) option \<Rightarrow> string \<Rightarrow> string" where
  "message_id_text idOrMsg uuid =
     (let given = (case idOrMsg of
                     Some (Inl s) \<Rightarrow> Some s
                   | Some (Inr msg) \<Rightarrow> msg_id msg
                   | None \<Rightarrow> None)
      in if truthy given then he_encode (he_encode (str given)) else printed_id (Some uuid))"

text \<open>The number of places of a text where a given text starts.\<close>

fun occurrences :: "string \<Rightarrow> string \<Rightarrow> nat" where
  "occurrences p [] = 0"
| "occurrences p (c # cs) = (if prefix p (c # cs) then 1 else 0) + occurrences p cs"

section \<open>Properties of the registry\<close>

subsection \<open>Sets and addresses\<close>

lemma foldl_Set_add_set: "set (foldl (\<lambda>s x. Set_add x s) a xs) = set a \<union> set xs"
  by (induction xs arbitrary: a) (auto simp: Set_add_def)

lemma set_new_Set: "set (new_Set xs) = set xs"
  by (simp add: new_Set_def foldl_Set_add_set)

lemma foldl_Set_add_distinct: "distinct a \<Longrightarrow> distinct (foldl (\<lambda>s x. Set_add x s) a xs)"
  by (induction xs arbitrary: a) (auto simp: Set_add_def)

lemma distinct_new_Set: "distinct (new_Set xs)"
  by (simp add: new_Set_def foldl_Set_add_distinct)

lemma foldl_append_concat: "foldl (\<lambda>acc val. acc @ val) a xs = a @ concat xs"
  by (induction xs arbitrary: a) simp_all

lemma cut_at_absent: "c \<notin> set s \<Longrightarrow> cut_at c s = None"
  by (simp add: cut_at_def)

lemma cut_at_first:
  assumes "c \<notin> set l"
  shows "cut_at c (l @ c # r) = Some (l, r)"
proof -
  from assms have "\<And>x. x \<in> set l \<Longrightarrow> x \<noteq> c" by auto
  then have "takeWhile (\<lambda>x. x \<noteq> c) (l @ c # r) = l"
    and "dropWhile (\<lambda>x. x \<noteq> c) (l @ c # r) = c # r"
    by (simp_all add: takeWhile_append2 dropWhile_append2)
  then show ?thesis by (simp add: cut_at_def)
qed

lemma jid_stripped:
  assumes "is_user_address j"
  shows "jid (local j @ ''@'' @ domain j) = Inr (bare j)"
proof -
  from assms have a: "cut_at (CHR ''/'') (local j @ ''@'' @ domain j) = None"
    by (intro cut_at_absent) (simp add: is_user_address_def)
  from assms have b: "cut_at (CHR ''@'') (local j @ ''@'' @ domain j) = Some (local j, domain j)"
    using cut_at_first [of "CHR ''@''" "local j" "domain j"] by (simp add: is_user_address_def)
  from assms have c: "domain j \<noteq> []" by (simp add: is_user_address_def)
  show ?thesis using a b c by (simp add: jid_def bare_def)
qed

lemma toString_bare:
  "is_user_address j \<Longrightarrow> toString (bare j) = local j @ ''@'' @ domain j"
  by (simp add: toString_def bare_def is_user_address_def)

lemma jid_toString:
  assumes "is_user_address j"
  shows "jid (toString j) = Inr j"
proof (cases "resource j = []")
  case True
  then have "toString j = local j @ ''@'' @ domain j"
    using assms by (simp add: toString_def is_user_address_def)
  moreover from True have "bare j = j" by (simp add: bare_def)
  ultimately show ?thesis using jid_stripped [OF assms] by simp
next
  case False
  let ?s = "local j @ ''@'' @ domain j"
  from False assms have t: "toString j = ?s @ CHR ''/'' # resource j"
    by (simp add: toString_def is_user_address_def)
  from assms have a: "cut_at (CHR ''/'') (?s @ CHR ''/'' # resource j) = Some (?s, resource j)"
    by (intro cut_at_first) (simp add: is_user_address_def)
  from assms have b: "cut_at (CHR ''@'') ?s = Some (local j, domain j)"
    using cut_at_first [of "CHR ''@''" "local j" "domain j"] by (simp add: is_user_address_def)
  from assms have c: "domain j \<noteq> []" by (simp add: is_user_address_def)
  show ?thesis unfolding t using a b c by (simp add: jid_def)
qed

lemma lookup_stripped:
  assumes "is_user_address j"
  shows "getXmppMemberByRealJid R (Inl (toString (bare j))) st =
         Inr (find (\<lambda>user. toString (realJid user) = local j @ ''@'' @ domain j)
                (getXmppMembers R st))"
proof -
  have "as_jid (Inl (toString (bare j))) = Inr (bare j)"
    unfolding toString_bare [OF assms] as_jid_def using jid_stripped [OF assms] by simp
  then show ?thesis
    by (simp add: getXmppMemberByRealJid_def bare_def)
qed

lemma lookup_jid:
  "getXmppMemberByRealJid R (Inr j) st =
         Inr (find (\<lambda>user. toString (realJid user) = local j @ ''@'' @ domain j)
                (getXmppMembers R st))"
  by (simp add: getXmppMemberByRealJid_def as_jid_def)

lemma new_Set_single: "new_Set [x] = [x]"
  by (simp add: new_Set_def Set_add_def)

lemma getMembers_eq: "(case members st R of Some s \<Rightarrow> s | None \<Rightarrow> []) = getMembers R st"
  by (simp add: getMembers_def)

lemma addXmppMember_user:
  assumes "is_user_address d"
  shows "addXmppMember R d anon mx st =
    (case find (\<lambda>user. toString (realJid user) = local d @ ''@'' @ domain d) (getXmppMembers R st) of
       Some member \<Rightarrow>
         Inr (False, st\<lparr>members := (members st)(R \<mapsto>
                replace1 member
                  (IGatewayMemberXmpp (anonymousJid member) (matrixId member) (realJid member)
                     (Set_add (toString d) (devices member)))
                  (getMembers R st))\<rparr>)
     | None \<Rightarrow>
         Inr (True, st\<lparr>members := (members st)(R \<mapsto>
                getMembers R st @ [IGatewayMemberXmpp anon mx (bare d) [toString d]])\<rparr>))"
  unfolding addXmppMember_def jid_stripped [OF assms] sum.case lookup_stripped [OF assms]
    getMembers_eq new_Set_single
  by (simp split: option.splits)

subsection \<open>Adding a Matrix member twice\<close>

lemma find_filter_append_new:
  "find P xs = None \<Longrightarrow> P x \<Longrightarrow> find P (xs @ [x]) = Some x"
  by (induction xs) (auto split: if_splits)

lemma getMembers_upd:
  "getMembers R (st\<lparr>members := (members st)(R' \<mapsto> s)\<rparr>) = (if R = R' then s else getMembers R st)"
  by (simp add: getMembers_def)

text \<open>
  Claim C4. When \<^verbatim>\<open>addMatrixMember(R, U, anon)\<close> has returned true, the same call
  again returns false and leaves the registry as it is, and the room holds exactly one
  Matrix participant for \<open>U\<close>. The operation has no throwing step: its result is a
  plain pair, with no error case.
\<close>

theorem addMatrixMember_twice:
  assumes "addMatrixMember R U anon st = (True, st')"
  shows "addMatrixMember R U anon st' = (False, st') \<and>
         filter (\<lambda>m. matrixId m = U) (getMatrixMembers R st') = [IGatewayMemberMatrix anon U]"
proof -
  let ?s = "getMembers R st"
  let ?new = "IGatewayMemberMatrix anon U"
  from assms have none: "find (\<lambda>user. matrixId user = U) (filter is_matrix ?s) = None"
    and st': "st' = st\<lparr>members := (members st)(R \<mapsto> ?s @ [?new])\<rparr>"
    by (auto simp: addMatrixMember_def getMatrixMemberByMatrixId_def getMatrixMembers_def
        getMembers_def split: if_splits)
  have mm: "getMatrixMembers R st' = filter is_matrix ?s @ [?new]"
    by (simp add: getMatrixMembers_def st' getMembers_upd is_matrix_def)
  have "find (\<lambda>user. matrixId user = U) (getMatrixMembers R st') = Some ?new"
    unfolding mm using none by (intro find_filter_append_new) simp_all
  then have a: "addMatrixMember R U anon st' = (False, st')"
    by (simp add: addMatrixMember_def getMatrixMemberByMatrixId_def)
  from none have "filter (\<lambda>m. matrixId m = U) (filter is_matrix ?s) = []"
    by (auto simp: find_None_iff filter_empty_conv)
  then have b: "filter (\<lambda>m. matrixId m = U) (getMatrixMembers R st') = [?new]"
    unfolding mm by simp
  from a b show ?thesis by simp
qed

theorem addMatrixMember_twice_witness:
  "addMatrixMember ''chat@conf.example'' ''@alice:hs''
     \<lparr>local = ''chat'', domain = ''conf.example'', resource = ''alice''\<rparr>
     new_GatewayMUCMembership =
   (True, \<lparr>members = [''chat@conf.example'' \<mapsto>
      [IGatewayMemberMatrix
         \<lparr>local = ''chat'', domain = ''conf.example'', resource = ''alice''\<rparr>
         ''@alice:hs'']]\<rparr>) \<and>
   addMatrixMember ''chat@conf.example'' ''@alice:hs''
     \<lparr>local = ''chat'', domain = ''conf.example'', resource = ''alice''\<rparr>
     \<lparr>members = [''chat@conf.example'' \<mapsto>
      [IGatewayMemberMatrix
         \<lparr>local = ''chat'', domain = ''conf.example'', resource = ''alice''\<rparr>
         ''@alice:hs'']]\<rparr> =
   (False, \<lparr>members = [''chat@conf.example'' \<mapsto>
      [IGatewayMemberMatrix
         \<lparr>local = ''chat'', domain = ''conf.example'', resource = ''alice''\<rparr>
         ''@alice:hs'']]\<rparr>)"
proof -
  have first: "addMatrixMember ''chat@conf.example'' ''@alice:hs''
     \<lparr>local = ''chat'', domain = ''conf.example'', resource = ''alice''\<rparr>
     new_GatewayMUCMembership =
   (True, \<lparr>members = [''chat@conf.example'' \<mapsto>
      [IGatewayMemberMatrix
         \<lparr>local = ''chat'', domain = ''conf.example'', resource = ''alice''\<rparr>
         ''@alice:hs'']]\<rparr>)"
    by (simp add: addMatrixMember_def getMatrixMemberByMatrixId_def getMatrixMembers_def
        getMembers_def new_GatewayMUCMembership_def)
  from addMatrixMember_twice [OF first] first show ?thesis by simp
qed

subsection \<open>The device addresses of a room\<close>

text \<open>
  Claim C9. \<^verbatim>\<open>getXmppMembersDevices\<close> returns the same set on its two branches, the one
  with \<^verbatim>\<open>flat()\<close> and the one with \<^verbatim>\<open>reduce\<close>. An address is in the set exactly when
  the room is in the map \<^verbatim>\<open>members\<close> and one of its members is an XMPP participant with
  the address among its \<^verbatim>\<open>devices\<close>: the set is the union of the devices of the XMPP
  participants of the room, and as a \<^verbatim>\<open>Set\<close> it has no duplicates.
\<close>

theorem getXmppMembersDevices_union:
  "getXmppMembersDevices True chatName st = getXmppMembersDevices False chatName st \<and>
   set (getXmppMembersDevices b chatName st) =
     {dev. \<exists>s anon mx rj ds. members st chatName = Some s \<and>
             IGatewayMemberXmpp anon mx rj ds \<in> set s \<and> dev \<in> set ds} \<and>
   distinct (getXmppMembersDevices b chatName st)"
proof -
  have eq: "getXmppMembersDevices True chatName st = getXmppMembersDevices False chatName st"
    by (simp add: getXmppMembersDevices_def foldl_append_concat)
  have d: "distinct (getXmppMembersDevices b chatName st)"
    by (simp add: getXmppMembersDevices_def distinct_new_Set)
  have "set (getXmppMembersDevices b chatName st) =
        (\<Union>u \<in> set (filter is_xmpp (getMembers chatName st)). set (devices u))"
    by (simp add: getXmppMembersDevices_def foldl_append_concat set_new_Set getXmppMembers_def)
  also have "\<dots> = {dev. \<exists>s anon mx rj ds. members st chatName = Some s \<and>
             IGatewayMemberXmpp anon mx rj ds \<in> set s \<and> dev \<in> set ds}"
  proof (cases "members st chatName")
    case None
    then show ?thesis by (simp add: getMembers_def)
  next
    case (Some s)
    have "(\<Union>u \<in> set (filter is_xmpp s). set (devices u)) =
          {dev. \<exists>anon mx rj ds. IGatewayMemberXmpp anon mx rj ds \<in> set s \<and> dev \<in> set ds}"
    proof (intro set_eqI iffI)
      fix dev assume "dev \<in> (\<Union>u \<in> set (filter is_xmpp s). set (devices u))"
      then obtain u where u: "u \<in> set s" "is_xmpp u" "dev \<in> set (devices u)" by auto
      show "dev \<in> {dev. \<exists>anon mx rj ds. IGatewayMemberXmpp anon mx rj ds \<in> set s \<and> dev \<in> set ds}"
      proof (cases u)
        case (IGatewayMemberMatrix anon mx)
        with u show ?thesis by (simp add: is_xmpp_def)
      next
        case (IGatewayMemberXmpp anon mx rj ds)
        with u show ?thesis by auto
      qed
    next
      fix dev assume "dev \<in> {dev. \<exists>anon mx rj ds. IGatewayMemberXmpp anon mx rj ds \<in> set s \<and> dev \<in> set ds}"
      then obtain anon mx rj ds where "IGatewayMemberXmpp anon mx rj ds \<in> set s" "dev \<in> set ds"
        by auto
      then show "dev \<in> (\<Union>u \<in> set (filter is_xmpp s). set (devices u))"
        by (auto simp: is_xmpp_def intro!: bexI [of _ "IGatewayMemberXmpp anon mx rj ds"])
    qed
    with Some show ?thesis by (simp add: getMembers_def)
  qed
  finally show ?thesis using eq d by simp
qed

subsection \<open>Lists of members\<close>

lemma find_filter: "find P (filter F xs) = find (\<lambda>x. F x \<and> P x) xs"
  by (induction xs) auto

lemma find_Some_mem: "find Q xs = Some m \<Longrightarrow> m \<in> set xs \<and> Q m"
  by (induction xs) (auto split: if_splits)

lemma find_replace1:
  "find Q xs = Some m \<Longrightarrow> Q m' \<Longrightarrow> find Q (replace1 m m' xs) = Some m'"
  by (induction xs) (auto split: if_splits)

lemma remove1_replace1:
  "find Q xs = Some m \<Longrightarrow> Q m' \<Longrightarrow> remove1 m' (replace1 m m' xs) = remove1 m xs"
  by (induction xs) (auto split: if_splits)

lemma replace1_mem: "m \<in> set xs \<Longrightarrow> m' \<in> set (replace1 m m' xs)"
  by (induction xs) auto

lemma replace1_last: "x \<notin> set xs \<Longrightarrow> replace1 x y (xs @ [x]) = xs @ [y]"
  by (induction xs) auto

lemma map_replace1: "f x = f y \<Longrightarrow> map f (replace1 x y xs) = map f xs"
  by (induction xs) auto

lemma filter_replace1_out: "\<not> P x \<Longrightarrow> \<not> P y \<Longrightarrow> filter P (replace1 x y xs) = filter P xs"
  by (induction xs) auto

lemma filter_replace1_in: "P x \<Longrightarrow> P y \<Longrightarrow> filter P (replace1 x y xs) = replace1 x y (filter P xs)"
  by (induction xs) auto

lemma distinct_map_filter_remove1:
  "distinct (map f (filter P xs)) \<Longrightarrow> distinct (map f (filter P (remove1 x xs)))"
proof (induction xs)
  case Nil
  then show ?case by simp
next
  case (Cons z zs)
  have sub: "set (remove1 x zs) \<subseteq> set zs" by (rule set_remove1_subset)
  from Cons show ?case using sub by (auto split: if_splits)
qed

lemma getXmppMembers_upd:
  "getXmppMembers R (st\<lparr>members := (members st)(R' \<mapsto> s)\<rparr>) =
     (if R = R' then filter is_xmpp s else getXmppMembers R st)"
  by (simp add: getXmppMembers_def getMembers_upd)

lemma getMatrixMembers_upd:
  "getMatrixMembers R (st\<lparr>members := (members st)(R' \<mapsto> s)\<rparr>) =
     (if R = R' then filter is_matrix s else getMatrixMembers R st)"
  by (simp add: getMatrixMembers_def getMembers_upd)

lemma lookup_found:
  assumes "getXmppMemberByRealJid R (Inr d) st = Inr (Some m)"
  shows "find (\<lambda>u. is_xmpp u \<and> toString (realJid u) = local d @ ''@'' @ domain d)
           (getMembers R st) = Some m"
  using assms unfolding lookup_jid getXmppMembers_def find_filter by simp

lemma toString_device:
  "resource d \<noteq> [] \<Longrightarrow> local d \<noteq> [] \<Longrightarrow>
   toString d = (local d @ ''@'' @ domain d) @ ''/'' @ resource d"
  by (simp add: toString_def)

lemma set_Set_delete: "set (Set_delete x s) = set s - {x}"
  by (simp add: Set_delete_def)

lemma found_room:
  "find Q (getMembers R st) = Some m \<Longrightarrow> members st R = Some (getMembers R st)"
  by (cases "members st R") (simp_all add: getMembers_def)

lemma removeXmppMember_string:
  "is_user_address a \<Longrightarrow> removeXmppMember R (Inl (toString a)) st = removeXmppMember R (Inr a) st"
  by (simp add: removeXmppMember_def as_jid_def jid_toString)

subsection \<open>A second device of a user\<close>

text \<open>
  Claim C10. When the lookup of the registry finds a participant for the real identity of
  the address \<open>d\<close>, \<^verbatim>\<open>addXmppMember\<close> for \<open>d\<close> returns false whatever anonymous JID and
  Matrix id the call passes; the participant keeps its \<^verbatim>\<open>anonymousJid\<close>, \<^verbatim>\<open>matrixId\<close>
  and \<^verbatim>\<open>realJid\<close>, its \<^verbatim>\<open>devices\<close> gain the address \<open>d\<close>, and no member of the room
  changes its \<^verbatim>\<open>anonymousJid\<close> or \<^verbatim>\<open>matrixId\<close>.
\<close>

theorem addXmppMember_existing:
  fixes m :: IGatewayMember and d :: JID
  defines "m' \<equiv> IGatewayMemberXmpp (anonymousJid m) (matrixId m) (realJid m)
                   (Set_add (toString d) (devices m))"
  assumes user: "is_user_address d"
    and present: "getXmppMemberByRealJid R (Inr d) st = Inr (Some m)"
  shows "addXmppMember R d anon mx st =
           Inr (False, st\<lparr>members := (members st)(R \<mapsto> replace1 m m' (getMembers R st))\<rparr>) \<and>
         getXmppMemberByRealJid R (Inr d)
           (st\<lparr>members := (members st)(R \<mapsto> replace1 m m' (getMembers R st))\<rparr>) = Inr (Some m') \<and>
         anonymousJid m' = anonymousJid m \<and> matrixId m' = matrixId m \<and> realJid m' = realJid m \<and>
         set (devices m') = insert (toString d) (set (devices m)) \<and>
         map anonymousJid (replace1 m m' (getMembers R st)) = map anonymousJid (getMembers R st) \<and>
         map matrixId (replace1 m m' (getMembers R st)) = map matrixId (getMembers R st)"
proof -
  let ?Q = "\<lambda>u. is_xmpp u \<and> toString (realJid u) = local d @ ''@'' @ domain d"
  have f: "find ?Q (getMembers R st) = Some m" by (rule lookup_found [OF present])
  then have Qm: "?Q m" by (auto dest: find_Some_mem)
  have Qm': "?Q m'" using Qm by (simp add: m'_def is_xmpp_def)
  have f0: "find (\<lambda>user. toString (realJid user) = local d @ ''@'' @ domain d)
              (getXmppMembers R st) = Some m"
    using f by (simp add: getXmppMembers_def find_filter)
  have a: "addXmppMember R d anon mx st =
           Inr (False, st\<lparr>members := (members st)(R \<mapsto> replace1 m m' (getMembers R st))\<rparr>)"
    unfolding addXmppMember_user [OF user] f0 by (simp add: m'_def)
  have b: "getXmppMemberByRealJid R (Inr d)
           (st\<lparr>members := (members st)(R \<mapsto> replace1 m m' (getMembers R st))\<rparr>) = Inr (Some m')"
    using find_replace1 [OF f Qm'] by (simp add: lookup_jid getXmppMembers_upd find_filter)
  have c: "set (devices m') = insert (toString d) (set (devices m))"
    by (auto simp: m'_def Set_add_def)
  have d: "map anonymousJid (replace1 m m' (getMembers R st)) = map anonymousJid (getMembers R st)"
    by (rule map_replace1) (simp add: m'_def)
  have e: "map matrixId (replace1 m m' (getMembers R st)) = map matrixId (getMembers R st)"
    by (rule map_replace1) (simp add: m'_def)
  show ?thesis using a b c d e by (simp add: m'_def)
qed

theorem addXmppMember_existing_witness:
  "addXmppMember ''chat@conf.example'' \<lparr>local = ''bob'', domain = ''x.org'', resource = ''laptop''\<rparr>
     \<lparr>local = ''chat'', domain = ''conf.example'', resource = ''robert''\<rparr> ''@other:hs''
     \<lparr>members = [''chat@conf.example'' \<mapsto>
       [IGatewayMemberXmpp \<lparr>local = ''chat'', domain = ''conf.example'', resource = ''bob''\<rparr>
           ''@_x_bob:hs''
           \<lparr>local = ''bob'', domain = ''x.org'', resource = []\<rparr> [''bob@x.org/phone'']]]\<rparr> =
   Inr (False, \<lparr>members = [''chat@conf.example'' \<mapsto>
       [IGatewayMemberXmpp \<lparr>local = ''chat'', domain = ''conf.example'', resource = ''bob''\<rparr>
           ''@_x_bob:hs''
           \<lparr>local = ''bob'', domain = ''x.org'', resource = []\<rparr>
          [''bob@x.org/phone'', ''bob@x.org/laptop'']]]\<rparr>)"
  using addXmppMember_existing [of "\<lparr>local = ''bob'', domain = ''x.org'', resource = ''laptop''\<rparr>"
      "''chat@conf.example''"
      "\<lparr>members = [''chat@conf.example'' \<mapsto>
       [IGatewayMemberXmpp \<lparr>local = ''chat'', domain = ''conf.example'', resource = ''bob''\<rparr>
           ''@_x_bob:hs''
           \<lparr>local = ''bob'', domain = ''x.org'', resource = []\<rparr> [''bob@x.org/phone'']]]\<rparr>"
      "IGatewayMemberXmpp \<lparr>local = ''chat'', domain = ''conf.example'', resource = ''bob''\<rparr>
          ''@_x_bob:hs''
          \<lparr>local = ''bob'', domain = ''x.org'', resource = []\<rparr> [''bob@x.org/phone'']"
      "\<lparr>local = ''chat'', domain = ''conf.example'', resource = ''robert''\<rparr>" "''@other:hs''"]
  by (simp add: is_user_address_def getXmppMemberByRealJid_def as_jid_def getXmppMembers_def
      getMembers_def is_xmpp_def toString_def Set_add_def)

text \<open>
  Claim C1. \<open>I\<close> is a real identity (a bare address with a local part and a domain),
  \<open>d1\<close> and \<open>d2\<close> are two different device addresses of \<open>I\<close>, and the lookup of the
  registry finds no participant for \<open>I\<close> in the room. Then \<^verbatim>\<open>addXmppMember\<close> returns
  true for \<open>d1\<close> and false for \<open>d2\<close>, and afterwards the room holds exactly one XMPP
  participant with the real JID \<open>I\<close>, whose devices are the two addresses (which print
  differently).
\<close>

theorem addXmppMember_two_devices:
  assumes identity: "is_user_address I" "resource I = []"
    and d1: "local d1 = local I" "domain d1 = domain I" "resource d1 \<noteq> []"
    and d2: "local d2 = local I" "domain d2 = domain I" "resource d2 \<noteq> []"
    and neq: "d1 \<noteq> d2"
    and absent: "getXmppMemberByRealJid R (Inr I) st = Inr None"
  shows "\<exists>st1 st2.
           addXmppMember R d1 anon mx st = Inr (True, st1) \<and>
           addXmppMember R d2 anon mx st1 = Inr (False, st2) \<and>
           filter (\<lambda>u. realJid u = I) (getXmppMembers R st2) =
             [IGatewayMemberXmpp anon mx I [toString d1, toString d2]] \<and>
           toString d1 \<noteq> toString d2"
proof -
  let ?key = "local I @ ''@'' @ domain I"
  let ?P = "\<lambda>user. toString (realJid user) = ?key"
  let ?new = "IGatewayMemberXmpp anon mx I [toString d1]"
  let ?new' = "IGatewayMemberXmpp anon mx I [toString d1, toString d2]"
  let ?s = "getMembers R st"
  let ?st1 = "st\<lparr>members := (members st)(R \<mapsto> ?s @ [?new])\<rparr>"
  let ?st2 = "?st1\<lparr>members := (members ?st1)(R \<mapsto> ?s @ [?new'])\<rparr>"
  have u1: "is_user_address d1" and u2: "is_user_address d2"
    using identity d1 d2 by (simp_all add: is_user_address_def)
  have b1: "bare d1 = I" and b2: "bare d2 = I"
    using identity d1 d2 by (simp_all add: bare_def)
  have tI: "toString I = ?key" using toString_bare [OF u1] b1 d1 by simp
  have t1: "toString d1 = ?key @ ''/'' @ resource d1"
    using toString_device [of d1] d1 identity by (simp add: is_user_address_def)
  have t2: "toString d2 = ?key @ ''/'' @ resource d2"
    using toString_device [of d2] d2 identity by (simp add: is_user_address_def)
  from neq d1 d2 have "resource d1 \<noteq> resource d2" by (cases d1; cases d2) auto
  then have tne: "toString d1 \<noteq> toString d2" unfolding t1 t2 by simp
  from absent have none: "find ?P (getXmppMembers R st) = None"
    by (simp add: lookup_jid)
  then have noP: "\<And>u. u \<in> set (getXmppMembers R st) \<Longrightarrow> \<not> ?P u"
    by (auto simp: find_None_iff)
  have r1: "addXmppMember R d1 anon mx st = Inr (True, ?st1)"
    unfolding addXmppMember_user [OF u1] d1 none b1 by simp
  have x1: "getXmppMembers R ?st1 = getXmppMembers R st @ [?new]"
    by (simp add: getMembers_upd getXmppMembers_def is_xmpp_def)
  have f1: "find ?P (getXmppMembers R ?st1) = Some ?new"
    unfolding x1 using none by (intro find_filter_append_new) (simp_all add: tI)
  have notin: "?new \<notin> set ?s"
  proof
    assume "?new \<in> set ?s"
    then have "?new \<in> set (getXmppMembers R st)" by (simp add: getXmppMembers_def is_xmpp_def)
    from noP [OF this] show False by (simp add: tI)
  qed
  have g1: "getMembers R ?st1 = ?s @ [?new]" by (simp add: getMembers_upd)
  have sa: "Set_add (toString d2) [toString d1] = [toString d1, toString d2]"
    using tne by (simp add: Set_add_def)
  have r2: "addXmppMember R d2 anon mx ?st1 = Inr (False, ?st2)"
    unfolding addXmppMember_user [OF u2] d2 f1 g1 using replace1_last [OF notin] sa by simp
  have x2: "getXmppMembers R ?st2 = getXmppMembers R st @ [?new']"
    by (simp add: getMembers_upd getXmppMembers_def is_xmpp_def)
  have "realJid u \<noteq> I" if "u \<in> set (getXmppMembers R st)" for u
    using noP [OF that] tI by auto
  then have "filter (\<lambda>u. realJid u = I) (getXmppMembers R st) = []"
    by (simp add: filter_empty_conv)
  then have one: "filter (\<lambda>u. realJid u = I) (getXmppMembers R ?st2) = [?new']"
    unfolding x2 by simp
  from r1 r2 one tne show ?thesis by auto
qed

theorem addXmppMember_two_devices_witness:
  "\<exists>st1 st2.
     addXmppMember ''chat@conf.example''
       \<lparr>local = ''bob'', domain = ''x.org'', resource = ''phone''\<rparr>
       \<lparr>local = ''chat'', domain = ''conf.example'', resource = ''bob''\<rparr> ''@_x_bob:hs'' new_GatewayMUCMembership = Inr (True, st1) \<and>
     addXmppMember ''chat@conf.example''
       \<lparr>local = ''bob'', domain = ''x.org'', resource = ''laptop''\<rparr>
       \<lparr>local = ''chat'', domain = ''conf.example'', resource = ''bob''\<rparr> ''@_x_bob:hs'' st1 = Inr (False, st2) \<and>
     filter (\<lambda>u. realJid u = \<lparr>local = ''bob'', domain = ''x.org'', resource = []\<rparr>)
       (getXmppMembers ''chat@conf.example'' st2) =
     [IGatewayMemberXmpp \<lparr>local = ''chat'', domain = ''conf.example'', resource = ''bob''\<rparr>
         ''@_x_bob:hs''
         \<lparr>local = ''bob'', domain = ''x.org'', resource = []\<rparr>
       [''bob@x.org/phone'', ''bob@x.org/laptop'']]"
  using addXmppMember_two_devices [of "\<lparr>local = ''bob'', domain = ''x.org'', resource = []\<rparr>"
      "\<lparr>local = ''bob'', domain = ''x.org'', resource = ''phone''\<rparr>"
      "\<lparr>local = ''bob'', domain = ''x.org'', resource = ''laptop''\<rparr>"
      "''chat@conf.example''" new_GatewayMUCMembership
      "\<lparr>local = ''chat'', domain = ''conf.example'', resource = ''bob''\<rparr>" "''@_x_bob:hs''"]
  by (simp add: is_user_address_def getXmppMemberByRealJid_def as_jid_def getXmppMembers_def
      getMembers_def new_GatewayMUCMembership_def toString_def)

text \<open>
  The hypothesis \<open>is_user_address\<close> is needed. For an address without a local part
  \<^verbatim>\<open>getXmppMemberByRealJid\<close> builds the key \<^verbatim>\<open>@domain\<close>, while the stored real JID
  prints as \<^verbatim>\<open>domain\<close>: the lookup does not find the participant, and a second device
  is entered as a second participant.
\<close>

lemma address_without_local_part:
  "\<exists>st1 st2.
     addXmppMember ''chat@conf.example''
       \<lparr>local = [], domain = ''x.org'', resource = ''a''\<rparr>
       \<lparr>local = ''chat'', domain = ''conf.example'', resource = ''x''\<rparr> ''@_x:hs''
       new_GatewayMUCMembership = Inr (True, st1) \<and>
     addXmppMember ''chat@conf.example''
       \<lparr>local = [], domain = ''x.org'', resource = ''b''\<rparr>
       \<lparr>local = ''chat'', domain = ''conf.example'', resource = ''x''\<rparr> ''@_x:hs''
       st1 = Inr (True, st2) \<and>
     length (getXmppMembers ''chat@conf.example'' st2) = 2"
  by (simp add: addXmppMember_def jid_def cut_at_def getXmppMemberByRealJid_def as_jid_def
      getXmppMembers_def getMembers_def new_GatewayMUCMembership_def toString_def new_Set_def
      Set_add_def is_xmpp_def)

subsection \<open>Removing a device, removing a user\<close>

lemma removeXmppMember_found:
  fixes m :: IGatewayMember and a :: JID
  defines "rest \<equiv> Set_delete (toString a) (devices m)"
  defines "m' \<equiv> IGatewayMemberXmpp (anonymousJid m) (matrixId m) (realJid m) rest"
  assumes present: "getXmppMemberByRealJid R (Inr a) st = Inr (Some m)"
  shows "removeXmppMember R (Inr a) st =
           (if resource a \<noteq> [] \<and> rest \<noteq> []
            then Inr (False, st\<lparr>members := (members st)(R \<mapsto> replace1 m m' (getMembers R st))\<rparr>)
            else Inr (True, st\<lparr>members := (members st)(R \<mapsto> remove1 m (getMembers R st))\<rparr>)) \<and>
         set rest = set (devices m) - {toString a} \<and>
         getXmppMemberByRealJid R (Inr a)
           (st\<lparr>members := (members st)(R \<mapsto> replace1 m m' (getMembers R st))\<rparr>) = Inr (Some m')"
proof -
  let ?Q = "\<lambda>u. is_xmpp u \<and> toString (realJid u) = local a @ ''@'' @ domain a"
  let ?s = "getMembers R st"
  have f: "find ?Q ?s = Some m" by (rule lookup_found [OF present])
  then have Qm: "?Q m" and mem: "m \<in> set ?s" by (auto dest: find_Some_mem)
  have Qm': "?Q m'" using Qm by (simp add: m'_def is_xmpp_def)
  have room: "members st R = Some ?s" by (rule found_room [OF f])
  have mem': "m' \<in> set (replace1 m m' ?s)" by (rule replace1_mem [OF mem])
  have rr: "remove1 m' (replace1 m m' ?s) = remove1 m ?s" by (rule remove1_replace1 [OF f Qm'])
  have bare_case: "delete_member R m st =
      (True, st\<lparr>members := (members st)(R \<mapsto> remove1 m ?s)\<rparr>)"
    using mem by (simp add: delete_member_def room)
  have last_case: "delete_member R m' (st\<lparr>members := (members st)(R \<mapsto> replace1 m m' ?s)\<rparr>) =
      (True, st\<lparr>members := (members st)(R \<mapsto> remove1 m ?s)\<rparr>)"
    using mem' rr by (simp add: delete_member_def)
  have a: "removeXmppMember R (Inr a) st =
           (if resource a \<noteq> [] \<and> rest \<noteq> []
            then Inr (False, st\<lparr>members := (members st)(R \<mapsto> replace1 m m' ?s)\<rparr>)
            else Inr (True, st\<lparr>members := (members st)(R \<mapsto> remove1 m ?s)\<rparr>))"
  proof -
    have dm': "devices m' = rest" by (simp add: m'_def)
    have "removeXmppMember R (Inr a) st =
          (if resource a \<noteq> [] then
             (if devices m' \<noteq> []
              then Inr (False, st\<lparr>members := (members st)(R \<mapsto> replace1 m m' ?s)\<rparr>)
              else Inr (delete_member R m'
                          (st\<lparr>members := (members st)(R \<mapsto> replace1 m m' ?s)\<rparr>)))
           else Inr (delete_member R m st))"
      unfolding removeXmppMember_def as_jid_def sum.case present option.case Let_def
        m'_def rest_def by (rule refl)
    then show ?thesis unfolding dm' bare_case last_case by simp
  qed
  have b: "set rest = set (devices m) - {toString a}"
    by (simp add: rest_def set_Set_delete)
  have c: "getXmppMemberByRealJid R (Inr a)
           (st\<lparr>members := (members st)(R \<mapsto> replace1 m m' ?s)\<rparr>) = Inr (Some m')"
    using find_replace1 [OF f Qm'] by (simp add: lookup_jid getXmppMembers_upd find_filter)
  from a b c show ?thesis by simp
qed

text \<open>
  Claim C2. The lookup of the registry finds the participant \<open>m\<close> for the address \<open>a\<close>.
  When \<open>a\<close> has a resource and other devices remain, \<^verbatim>\<open>removeXmppMember\<close> returns false
  and only takes \<open>a\<close> out of the devices of \<open>m\<close>, which stays in the room. When \<open>a\<close> has
  a resource and no device remains, or when \<open>a\<close> is bare, it returns true and takes
  \<open>m\<close> out of the room, however many devices \<open>m\<close> has. The address may be passed as a
  JID or, for the address of a user, as its string.
\<close>

theorem removeXmppMember_devices:
  fixes m :: IGatewayMember and a :: JID
  defines "rest \<equiv> Set_delete (toString a) (devices m)"
  defines "m' \<equiv> IGatewayMemberXmpp (anonymousJid m) (matrixId m) (realJid m) rest"
  assumes present: "getXmppMemberByRealJid R (Inr a) st = Inr (Some m)"
  shows "removeXmppMember R (Inr a) st =
           (if resource a \<noteq> [] \<and> rest \<noteq> []
            then Inr (False, st\<lparr>members := (members st)(R \<mapsto> replace1 m m' (getMembers R st))\<rparr>)
            else Inr (True, st\<lparr>members := (members st)(R \<mapsto> remove1 m (getMembers R st))\<rparr>)) \<and>
         set rest = set (devices m) - {toString a} \<and>
         getXmppMemberByRealJid R (Inr a)
           (st\<lparr>members := (members st)(R \<mapsto> replace1 m m' (getMembers R st))\<rparr>) = Inr (Some m') \<and>
         (is_user_address a \<longrightarrow>
            removeXmppMember R (Inl (toString a)) st = removeXmppMember R (Inr a) st)"
  using removeXmppMember_found [OF present] removeXmppMember_string [of a R st]
  unfolding rest_def m'_def by simp

theorem removeXmppMember_devices_witness:
  "removeXmppMember ''chat@conf.example''
      (Inr \<lparr>local = ''bob'', domain = ''x.org'', resource = ''phone''\<rparr>)
     \<lparr>members = [''chat@conf.example'' \<mapsto>
       [IGatewayMemberXmpp \<lparr>local = ''chat'', domain = ''conf.example'', resource = ''bob''\<rparr>
           ''@_x_bob:hs''
           \<lparr>local = ''bob'', domain = ''x.org'', resource = []\<rparr>
          [''bob@x.org/phone'', ''bob@x.org/laptop'']]]\<rparr> =
   Inr (False, \<lparr>members = [''chat@conf.example'' \<mapsto>
       [IGatewayMemberXmpp \<lparr>local = ''chat'', domain = ''conf.example'', resource = ''bob''\<rparr>
           ''@_x_bob:hs''
           \<lparr>local = ''bob'', domain = ''x.org'', resource = []\<rparr> [''bob@x.org/laptop'']]]\<rparr>) \<and>
   removeXmppMember ''chat@conf.example'' (Inl ''bob@x.org/phone'')
     \<lparr>members = [''chat@conf.example'' \<mapsto>
       [IGatewayMemberXmpp \<lparr>local = ''chat'', domain = ''conf.example'', resource = ''bob''\<rparr>
           ''@_x_bob:hs''
           \<lparr>local = ''bob'', domain = ''x.org'', resource = []\<rparr>
          [''bob@x.org/phone'', ''bob@x.org/laptop'']]]\<rparr> =
   Inr (False, \<lparr>members = [''chat@conf.example'' \<mapsto>
       [IGatewayMemberXmpp \<lparr>local = ''chat'', domain = ''conf.example'', resource = ''bob''\<rparr>
           ''@_x_bob:hs''
           \<lparr>local = ''bob'', domain = ''x.org'', resource = []\<rparr> [''bob@x.org/laptop'']]]\<rparr>)"
  using removeXmppMember_devices [of "''chat@conf.example''"
      "\<lparr>local = ''bob'', domain = ''x.org'', resource = ''phone''\<rparr>"
      "\<lparr>members = [''chat@conf.example'' \<mapsto>
       [IGatewayMemberXmpp \<lparr>local = ''chat'', domain = ''conf.example'', resource = ''bob''\<rparr>
           ''@_x_bob:hs''
           \<lparr>local = ''bob'', domain = ''x.org'', resource = []\<rparr>
          [''bob@x.org/phone'', ''bob@x.org/laptop'']]]\<rparr>"
      "IGatewayMemberXmpp \<lparr>local = ''chat'', domain = ''conf.example'', resource = ''bob''\<rparr>
          ''@_x_bob:hs''
          \<lparr>local = ''bob'', domain = ''x.org'', resource = []\<rparr>
       [''bob@x.org/phone'', ''bob@x.org/laptop'']"]
  by (simp add: is_user_address_def getXmppMemberByRealJid_def as_jid_def getXmppMembers_def
      getMembers_def is_xmpp_def toString_def Set_delete_def)

subsection \<open>One entry for each user\<close>

lemma xmpp_not_matrix: "is_xmpp u \<Longrightarrow> \<not> is_matrix u"
  by (cases u) (simp_all add: is_xmpp_def is_matrix_def)

lemma one_entry_each_upd:
  assumes "one_entry_each R st"
    and "R = R' \<Longrightarrow> distinct (map matrixId (filter is_matrix s'))"
    and "R = R' \<Longrightarrow> distinct (map (\<lambda>u. toString (realJid u)) (filter is_xmpp s'))"
  shows "one_entry_each R (st\<lparr>members := (members st)(R' \<mapsto> s')\<rparr>)"
  using assms by (simp add: one_entry_each_def getMatrixMembers_upd getXmppMembers_upd)

lemma one_entry_each_room:
  "one_entry_each R st \<longleftrightarrow>
     distinct (map matrixId (filter is_matrix (getMembers R st))) \<and>
     distinct (map (\<lambda>u. toString (realJid u)) (filter is_xmpp (getMembers R st)))"
  by (simp add: one_entry_each_def getMatrixMembers_def getXmppMembers_def)

lemma replace_keeps:
  assumes "one_entry_each R st" and "is_xmpp m" and "is_xmpp m'"
    and "toString (realJid m') = toString (realJid m)"
  shows "one_entry_each R (st\<lparr>members := (members st)(R' \<mapsto> replace1 m m' (getMembers R' st))\<rparr>)"
proof (rule one_entry_each_upd [OF assms(1)])
  assume R: "R = R'"
  have "filter is_matrix (replace1 m m' (getMembers R' st)) = filter is_matrix (getMembers R' st)"
    using assms(2,3) by (intro filter_replace1_out) (simp_all add: xmpp_not_matrix)
  then show "distinct (map matrixId (filter is_matrix (replace1 m m' (getMembers R' st))))"
    using assms(1) R by (simp add: one_entry_each_room)
  have "map (\<lambda>u. toString (realJid u)) (filter is_xmpp (replace1 m m' (getMembers R' st)))
        = map (\<lambda>u. toString (realJid u)) (filter is_xmpp (getMembers R' st))"
    using assms(2,3,4) by (simp add: filter_replace1_in map_replace1)
  then show "distinct (map (\<lambda>u. toString (realJid u))
               (filter is_xmpp (replace1 m m' (getMembers R' st))))"
    using assms(1) R by (simp add: one_entry_each_room)
qed

lemma remove_keeps:
  assumes "one_entry_each R st"
  shows "one_entry_each R (st\<lparr>members := (members st)(R' \<mapsto> remove1 m (getMembers R' st))\<rparr>)"
  using assms
  by (intro one_entry_each_upd) (simp_all add: one_entry_each_room distinct_map_filter_remove1)

lemma addMatrixMember_keeps:
  assumes "one_entry_each R st"
  shows "one_entry_each R (snd (addMatrixMember R' U anon st))"
proof (cases "getMatrixMemberByMatrixId R' U st")
  case (Some m)
  then show ?thesis using assms by (simp add: addMatrixMember_def)
next
  case None
  then have "U \<notin> matrixId ` set (filter is_matrix (getMembers R' st))"
    by (auto simp: getMatrixMemberByMatrixId_def getMatrixMembers_def find_None_iff)
  then have "one_entry_each R (st\<lparr>members := (members st)(R' \<mapsto>
               getMembers R' st @ [IGatewayMemberMatrix anon U])\<rparr>)"
    using assms
    by (intro one_entry_each_upd) (simp_all add: one_entry_each_room is_matrix_def is_xmpp_def)
  then show ?thesis using None by (simp add: addMatrixMember_def getMembers_eq)
qed

lemma addXmppMember_keeps:
  assumes inv: "one_entry_each R st" and user: "is_user_address d"
    and res: "addXmppMember R' d anon mx st = Inr (b, st')"
  shows "one_entry_each R st'"
proof (cases "find (\<lambda>user. toString (realJid user) = local d @ ''@'' @ domain d)
                (getXmppMembers R' st)")
  case None
  then have "local d @ ''@'' @ domain d
               \<notin> (\<lambda>u. toString (realJid u)) ` set (filter is_xmpp (getMembers R' st))"
    by (auto simp: getXmppMembers_def find_None_iff)
  then have "one_entry_each R (st\<lparr>members := (members st)(R' \<mapsto>
               getMembers R' st @ [IGatewayMemberXmpp anon mx (bare d) [toString d]])\<rparr>)"
    using inv toString_bare [OF user]
    by (intro one_entry_each_upd) (simp_all add: one_entry_each_room is_matrix_def is_xmpp_def)
  then show ?thesis using res unfolding addXmppMember_user [OF user] None by simp
next
  case (Some m)
  then have "is_xmpp m" by (auto simp: getXmppMembers_def dest: find_Some_mem)
  then have "one_entry_each R (st\<lparr>members := (members st)(R' \<mapsto>
               replace1 m (IGatewayMemberXmpp (anonymousJid m) (matrixId m) (realJid m)
                 (Set_add (toString d) (devices m))) (getMembers R' st))\<rparr>)"
    using inv by (intro replace_keeps) (simp_all add: is_xmpp_def)
  then show ?thesis using res unfolding addXmppMember_user [OF user] Some by simp
qed

lemma removeMatrixMember_keeps:
  assumes "one_entry_each R st"
  shows "one_entry_each R (snd (removeMatrixMember R' U st))"
proof (cases "getMatrixMemberByMatrixId R' U st")
  case None
  then show ?thesis using assms by (simp add: removeMatrixMember_def)
next
  case (Some m)
  show ?thesis
  proof (cases "members st R'")
    case None
    then show ?thesis using assms Some by (simp add: removeMatrixMember_def)
  next
    case (Some s)
    then have "getMembers R' st = s" by (simp add: getMembers_def)
    then show ?thesis
      using remove_keeps [OF assms, of R' m] Some \<open>getMatrixMemberByMatrixId R' U st = Some m\<close>
      by (simp add: removeMatrixMember_def)
  qed
qed

lemma removeXmppMember_keeps:
  assumes inv: "one_entry_each R st"
    and res: "removeXmppMember R' a st = Inr (b, st')"
  shows "one_entry_each R st'"
proof -
  from res obtain j where j: "as_jid a = Inr j"
    by (cases "as_jid a") (simp_all add: removeXmppMember_def)
  then have eq: "removeXmppMember R' a st = removeXmppMember R' (Inr j) st"
    by (simp add: removeXmppMember_def as_jid_def)
  show ?thesis
  proof (cases "find (\<lambda>user. toString (realJid user) = local j @ ''@'' @ domain j)
                  (getXmppMembers R' st)")
    case None
    then have "removeXmppMember R' (Inr j) st = Inr (False, st)"
      by (simp add: removeXmppMember_def as_jid_def lookup_jid)
    then show ?thesis using res eq inv by simp
  next
    case (Some m)
    then have present: "getXmppMemberByRealJid R' (Inr j) st = Inr (Some m)"
      by (simp add: lookup_jid)
    from Some have x: "is_xmpp m" by (auto simp: getXmppMembers_def dest: find_Some_mem)
    let ?m' = "IGatewayMemberXmpp (anonymousJid m) (matrixId m) (realJid m)
                 (Set_delete (toString j) (devices m))"
    have 1: "one_entry_each R (st\<lparr>members := (members st)(R' \<mapsto>
               replace1 m ?m' (getMembers R' st))\<rparr>)"
      using inv x by (intro replace_keeps) (simp_all add: is_xmpp_def)
    have 2: "one_entry_each R (st\<lparr>members := (members st)(R' \<mapsto>
               remove1 m (getMembers R' st))\<rparr>)"
      by (rule remove_keeps [OF inv])
    from removeXmppMember_found [OF present] res eq 1 2 show ?thesis
      by (auto split: if_splits)
  qed
qed

lemma call_keeps:
  assumes "one_entry_each R st" and "users_only c"
  shows "one_entry_each R (call c st)"
proof (cases c)
  case (AddMatrixMember R' U anon)
  then show ?thesis using addMatrixMember_keeps [OF assms(1)] by simp
next
  case (AddXmppMember R' d anon mx)
  then show ?thesis
    using assms addXmppMember_keeps [of R st d R' anon mx]
    by (cases "addXmppMember R' d anon mx st") auto
next
  case (RemoveMatrixMember R' U)
  then show ?thesis using removeMatrixMember_keeps [OF assms(1)] by simp
next
  case (RemoveXmppMember R' a)
  then show ?thesis
    using assms removeXmppMember_keeps [of R st R' a]
    by (cases "removeXmppMember R' a st") auto
qed

lemma calls_keep:
  "one_entry_each R st \<Longrightarrow> list_all users_only cs \<Longrightarrow> one_entry_each R (calls cs st)"
  unfolding calls_def
  by (induction cs arbitrary: st) (simp_all add: call_keeps)

lemma one_entry_each_new: "one_entry_each R new_GatewayMUCMembership"
  by (simp add: one_entry_each_def new_GatewayMUCMembership_def getMatrixMembers_def
      getXmppMembers_def getMembers_def)

lemma distinct_map_outer: "distinct (map (\<lambda>x. g (f x)) xs) \<Longrightarrow> distinct (map f xs)"
  by (induction xs) auto

text \<open>
  For the addresses of users the registry keeps one entry each: start from the empty
  registry and make any list of calls of \<^verbatim>\<open>addMatrixMember\<close>, \<^verbatim>\<open>addXmppMember\<close>,
  \<^verbatim>\<open>removeMatrixMember\<close> and \<^verbatim>\<open>removeXmppMember\<close>, the addresses passed to
  \<^verbatim>\<open>addXmppMember\<close> having a local part and a domain. Then every room holds at most one
  Matrix participant for a \<^verbatim>\<open>matrixId\<close> and at most one XMPP participant for a real JID.
\<close>

lemma one_entry_per_identity_for_users:
  assumes "list_all users_only cs"
  shows "distinct (map matrixId (getMatrixMembers R (calls cs new_GatewayMUCMembership))) \<and>
         distinct (map realJid (getXmppMembers R (calls cs new_GatewayMUCMembership)))"
  using calls_keep [OF one_entry_each_new assms, of R]
  by (auto simp: one_entry_each_def dest: distinct_map_outer)

text \<open>
  Claim C3. The claim is that after every list of calls of the four operations a room
  holds at most one XMPP participant for a real identity, a further device of that
  identity never making a second entry. \<^verbatim>\<open>addXmppMember\<close> takes any JID, and for a JID
  without a local part the code does not keep this: \<^verbatim>\<open>getXmppMemberByRealJid\<close> looks for
  the text \<^verbatim>\<open>@x.org\<close>, built as \<^verbatim>\<open>local@domain\<close>, while the real JID stored by
  \<^verbatim>\<open>addXmppMember\<close> prints as \<^verbatim>\<open>x.org\<close>. The two devices \<^verbatim>\<open>x.org/a\<close> and \<^verbatim>\<open>x.org/b\<close>
  are entered as two participants with the same real JID, and both calls return true,
  where the comment of \<^verbatim>\<open>addXmppMember\<close> promises true for the first device only.
\<close>

theorem registry_second_entry_without_local_part:
  "getXmppMembers ''chat@conf.example''
     (calls
        [AddXmppMember ''chat@conf.example'' \<lparr>local = [], domain = ''x.org'', resource = ''a''\<rparr>
           \<lparr>local = ''chat'', domain = ''conf.example'', resource = ''x''\<rparr> ''@_x:hs'',
         AddXmppMember ''chat@conf.example'' \<lparr>local = [], domain = ''x.org'', resource = ''b''\<rparr>
           \<lparr>local = ''chat'', domain = ''conf.example'', resource = ''x''\<rparr> ''@_x:hs'']
        new_GatewayMUCMembership) =
   [IGatewayMemberXmpp \<lparr>local = ''chat'', domain = ''conf.example'', resource = ''x''\<rparr>
      ''@_x:hs'' \<lparr>local = [], domain = ''x.org'', resource = []\<rparr> [''x.org/a''],
    IGatewayMemberXmpp \<lparr>local = ''chat'', domain = ''conf.example'', resource = ''x''\<rparr>
      ''@_x:hs'' \<lparr>local = [], domain = ''x.org'', resource = []\<rparr> [''x.org/b'']] \<and>
   addXmppMember ''chat@conf.example'' \<lparr>local = [], domain = ''x.org'', resource = ''b''\<rparr>
     \<lparr>local = ''chat'', domain = ''conf.example'', resource = ''x''\<rparr> ''@_x:hs''
     (calls
        [AddXmppMember ''chat@conf.example'' \<lparr>local = [], domain = ''x.org'', resource = ''a''\<rparr>
           \<lparr>local = ''chat'', domain = ''conf.example'', resource = ''x''\<rparr> ''@_x:hs'']
        new_GatewayMUCMembership) =
   Inr (True,
        calls
          [AddXmppMember ''chat@conf.example'' \<lparr>local = [], domain = ''x.org'', resource = ''a''\<rparr>
             \<lparr>local = ''chat'', domain = ''conf.example'', resource = ''x''\<rparr> ''@_x:hs'',
           AddXmppMember ''chat@conf.example'' \<lparr>local = [], domain = ''x.org'', resource = ''b''\<rparr>
             \<lparr>local = ''chat'', domain = ''conf.example'', resource = ''x''\<rparr> ''@_x:hs'']
          new_GatewayMUCMembership) \<and>
   \<not> distinct (map realJid (getXmppMembers ''chat@conf.example''
     (calls
        [AddXmppMember ''chat@conf.example'' \<lparr>local = [], domain = ''x.org'', resource = ''a''\<rparr>
           \<lparr>local = ''chat'', domain = ''conf.example'', resource = ''x''\<rparr> ''@_x:hs'',
         AddXmppMember ''chat@conf.example'' \<lparr>local = [], domain = ''x.org'', resource = ''b''\<rparr>
           \<lparr>local = ''chat'', domain = ''conf.example'', resource = ''x''\<rparr> ''@_x:hs'']
        new_GatewayMUCMembership)))"
  by (simp add: calls_def addXmppMember_def getXmppMemberByRealJid_def getXmppMembers_def
      getMembers_def as_jid_def jid_def cut_at_def toString_def new_Set_def Set_add_def
      is_xmpp_def new_GatewayMUCMembership_def)

section \<open>Properties of the stanza classes\<close>

subsection \<open>What the encoder leaves\<close>

lemma hexdigit_is_hexdigit:
  assumes "k < 16"
  shows "is_hexdigit (hexdigit k)"
proof -
  from assms have "k \<in> set [0..<16]" by simp
  then have "k \<in> {0, 1, 2, 3, 4, 5, 6, 7, 8, 9, 10, 11, 12, 13, 14, 15}"
    by (simp add: upt_rec numeral_2_eq_2 eval_nat_numeral)
  then show ?thesis
    by (auto simp: hexdigit_def is_hexdigit_def)
qed

lemma scan_hex:
  assumes "n < 256"
  shows "foldl scan_char (Some Digits0) (hex n) = Some Digits"
proof -
  from assms have "n div 16 < 16" by simp
  moreover have "n mod 16 < 16" by simp
  ultimately show ?thesis
    by (simp add: hex_def hexdigit_is_hexdigit)
qed

lemma scan_escapeBmpSymbol:
  "foldl scan_char (Some Text) (escapeBmpSymbol c) = Some Text"
proof -
  have "foldl scan_char (Some Text) (escapeBmpSymbol c) =
        scan_char (foldl scan_char (Some Digits0) (hex (of_char c))) (CHR '';'')"
    by (simp add: escapeBmpSymbol_def)
  also have "\<dots> = Some Text"
    by (simp add: scan_hex is_hexdigit_def)
  finally show ?thesis .
qed

lemma scan_plain:
  "\<not> regexEscape c \<Longrightarrow> scan_char (Some Text) c = Some Text"
  by (auto simp: regexEscape_def)

lemma scan_he_encode: "foldl scan_char (Some Text) (he_encode s) = Some Text"
proof (induction s)
  case Nil
  then show ?case by (simp add: he_encode_def)
next
  case (Cons c s)
  have split: "he_encode (c # s) =
      (if regexEscape c \<or> regexBmpWhitelist c then escapeBmpSymbol c else [c]) @ he_encode s"
    by (simp add: he_encode_def)
  show ?case
  proof (cases "regexEscape c \<or> regexBmpWhitelist c")
    case True
    then show ?thesis
      unfolding split using Cons by (simp add: scan_escapeBmpSymbol)
  next
    case False
    then have "\<not> regexEscape c" by simp
    then have p: "scan_char (Some Text) c = Some Text" by (rule scan_plain)
    from False have "he_encode (c # s) = c # he_encode s" unfolding split by simp
    then have "foldl scan_char (Some Text) (he_encode (c # s)) =
               foldl scan_char (scan_char (Some Text) c) (he_encode s)"
      by (simp only: foldl_Cons)
    then show ?thesis using Cons by (simp only: p)
  qed
qed

lemma entity_encoded_he_encode: "entity_encoded (he_encode s)"
  by (simp add: entity_encoded_def scan_he_encode)

lemma he_encode_reserved:
  "c \<in> set [CHR ''<'', CHR ''>'', CHR ''&'', CHR 0x22, CHR 0x27, CHR 0x60] \<Longrightarrow>
   he_encode (pre @ c # post) = he_encode pre @ ''&#x'' @ hex (of_char c) @ '';'' @ he_encode post"
  by (auto simp: he_encode_def regexEscape_def escapeBmpSymbol_def)

lemma scan_None: "foldl scan_char None s = None"
  by (induction s) simp_all

lemma scan_char_Some:
  "scan_char (Some q) c = Some q' \<Longrightarrow>
     c \<notin> set [CHR ''<'', CHR ''>'', CHR 0x22, CHR 0x27, CHR 0x60]"
  by (cases q) (auto simp: is_hexdigit_def split: if_splits)

lemma scan_no_reserved:
  "foldl scan_char (Some q) s = Some q' \<Longrightarrow>
     set s \<inter> set [CHR ''<'', CHR ''>'', CHR 0x22, CHR 0x27, CHR 0x60] = {}"
proof (induction s arbitrary: q)
  case Nil
  then show ?case by simp
next
  case (Cons c s)
  show ?case
  proof (cases "scan_char (Some q) c")
    case None
    with Cons.prems show ?thesis by (simp add: scan_None)
  next
    case (Some q1)
    with Cons.prems have "foldl scan_char (Some q1) s = Some q'" by simp
    from Cons.IH [OF this] scan_char_Some [OF Some] show ?thesis by auto
  qed
qed

lemma he_encode_no_reserved:
  "set (he_encode v) \<inter> set [CHR ''<'', CHR ''>'', CHR 0x22, CHR 0x27, CHR 0x60] = {}"
  by (rule scan_no_reserved [OF scan_he_encode])

subsection \<open>The first attributes of every stanza\<close>

lemma he_encode_Nil_iff: "he_encode s = [] \<longleftrightarrow> s = []"
  by (cases s) (auto simp: he_encode_def escapeBmpSymbol_def)

lemma entity_encoded_undefined: "entity_encoded ''undefined''"
  by (simp add: entity_encoded_def)

lemma entity_encoded_printed_id: "entity_encoded (printed_id v)"
  by (simp add: printed_id_def entity_encoded_he_encode entity_encoded_undefined)

lemma entity_encoded_message_id_text: "entity_encoded (message_id_text idOrMsg uuid)"
  by (simp add: message_id_text_def Let_def entity_encoded_he_encode entity_encoded_printed_id)

lemmas base_defs = StzaBase_constructor_def set_from_def set_to_def set_id_def get_from_def
  get_to_def get_id_def truthy_def str_def default_to_def

lemmas presence_defs = starts_with_attrs_def StzaPresence_xml_with_def base_defs quot_def Let_def
  entity_encoded_he_encode he_encode_Nil_iff

lemma attrs_Presence:
  "starts_with_attrs (fst (xml (Presence (new_StzaPresence f t i pt))))
     ''presence'' quot (he_encode f) (he_encode t)
     (if truthy i then Some (he_encode (str i)) else None)"
  by (simp add: new_StzaPresence_def StzaPresence_xml_def presence_defs split: option.splits)

lemma attrs_PresenceItem:
  "starts_with_attrs (fst (xml (PresenceItem (new_StzaPresenceItem f t i a r s j it))))
     ''presence'' quot (he_encode f) (he_encode t)
     (if truthy i then Some (he_encode (str i)) else None)"
  by (simp add: new_StzaPresenceItem_def StzaPresenceItem_xml_def presence_defs
      split: option.splits)

lemma attrs_PresenceError:
  "starts_with_attrs (fst (xml (PresenceError (new_StzaPresenceError f t i' b e ie))))
     ''presence'' quot (he_encode f) (he_encode t)
     (if i' \<noteq> [] then Some (he_encode i') else None)"
  by (simp add: new_StzaPresenceError_def StzaPresenceError_xml_def presence_defs)

lemma attrs_PresenceJoin:
  "starts_with_attrs (fst (xml (PresenceJoin (new_StzaPresenceJoin f t i pt))))
     ''presence'' quot (he_encode f) (he_encode t)
     (if truthy i then Some (he_encode (str i)) else None)"
  by (simp add: new_StzaPresenceJoin_def new_StzaPresence_def StzaPresenceJoin_xml_def
      presence_defs split: option.splits)

lemma attrs_PresencePart:
  "starts_with_attrs (fst (xml (PresencePart (new_StzaPresencePart f t))))
     ''presence'' quot (he_encode f) (he_encode t) None"
  by (simp add: new_StzaPresencePart_def new_StzaPresence_def StzaPresence_xml_def
      presence_defs)

lemma attrs_MessageSubject:
  "starts_with_attrs (fst (xml (MessageSubject (new_StzaMessageSubject f t i sub))))
     ''message'' quot (he_encode f) (he_encode t) (Some (printed_id i))"
  by (simp add: new_StzaMessageSubject_def StzaMessageSubject_xml_def printed_id_def
      entity_encoded_undefined presence_defs split: option.splits)

lemma attrs_IqPing:
  "starts_with_attrs (fst (xml (IqPing (new_StzaIqPing f t i' uuid))))
     ''iq'' apos (he_encode f) (he_encode t)
     (Some (printed_id (Some (if i' \<noteq> [] then i' else uuid))))"
  by (simp add: new_StzaIqPing_def StzaIqPing_xml_def printed_id_def
      entity_encoded_undefined presence_defs)

lemma attrs_IqDiscoInfo:
  "starts_with_attrs (fst (xml (IqDiscoInfo (new_StzaIqDiscoInfo f t i'))))
     ''iq'' apos (he_encode f) (he_encode t) (Some (printed_id (Some i')))"
  by (simp add: new_StzaIqDiscoInfo_def StzaIqDiscoInfo_xml_def StzaIqDisco_xml_with_def
      printed_id_def entity_encoded_undefined presence_defs)

text \<open>The fields of a new message.\<close>

lemma new_StzaMessage_fields:
  "priv_from (new_StzaMessage f t idOrMsg mt uuid) = he_encode f"
  "priv_to (new_StzaMessage f t idOrMsg mt uuid) = he_encode t"
  "messageType (new_StzaMessage f t idOrMsg mt uuid) = mt"
  by (simp_all add: new_StzaMessage_def base_defs Let_def split: option.splits sum.splits)

lemma new_StzaMessage_id:
  "str (get_id (new_StzaMessage f t idOrMsg mt uuid)) = message_id_text idOrMsg uuid"
  by (simp add: new_StzaMessage_def message_id_text_def printed_id_def base_defs Let_def
      he_encode_Nil_iff split: option.splits sum.splits)

lemma new_StzaMessage_record:
  "body (new_StzaMessage f t (Some (Inr msg)) mt uuid) = msg_body msg"
  "attachments (new_StzaMessage f t (Some (Inr msg)) mt uuid) =
     (case msg_opts msg of None \<Rightarrow> []
      | Some opts \<Rightarrow> map uri (default_to [] (opts_attachments opts)))"
  "html (new_StzaMessage f t (Some (Inr msg)) mt uuid) =
     (case msg_formatted msg of None \<Rightarrow> []
      | Some formatted \<Rightarrow>
          (case find (\<lambda>f. fmt_type f = ''html'') formatted of
             Some h \<Rightarrow> fmt_body h | None \<Rightarrow> []))"
  by (simp_all add: new_StzaMessage_def base_defs Let_def split: option.splits sum.splits)

lemma StzaMessage_xml_text:
  \<open>fst (StzaMessage_xml this) =
     ''<message from="'' @ priv_from this @ ''" to="'' @ priv_to this
     @ ''" id="'' @ str (get_id this) @ ''" ''
     @ (if truthy (messageType this) then ''type='' @ apos @ str (messageType this) @ apos else [])
     @ ''>'' @ html this @ ''<body>''
     @ he_encode (if length (attachments this) = 1 then hd (attachments this) else body this)
     @ ''</body>''
     @ join_commas (map (\<lambda>a. ''<x xmlns='jabber:x:oob'><url>'' @ he_encode a @ ''</url></x>'')
         (attachments this))
     @ ''</message>''\<close>
  by (simp add: StzaMessage_xml_def Let_def get_from_def get_to_def get_id_def)

lemma attrs_Message:
  "starts_with_attrs (fst (xml (Message (new_StzaMessage f t idOrMsg mt uuid))))
     ''message'' quot (he_encode f) (he_encode t) (Some (message_id_text idOrMsg uuid))"
  by (simp add: StzaMessage_xml_text new_StzaMessage_fields new_StzaMessage_id
      starts_with_attrs_def quot_def entity_encoded_he_encode entity_encoded_message_id_text)

text \<open>
  Claim C5. Every stanza class renders \<^verbatim>\<open>from\<close>, \<^verbatim>\<open>to\<close> and \<^verbatim>\<open>id\<close> as the first
  attributes of its element, with the values \<^verbatim>\<open>he.encode\<close> has made of the arguments of the
  constructor, and a \<^verbatim>\<open>StzaMessage\<close> renders the encoded body between \<^verbatim>\<open><body>\<close> and
  \<^verbatim>\<open></body>\<close>. An encoded value holds no \<^verbatim>\<open><\<close>, \<^verbatim>\<open>>\<close>, double quote, apostrophe or
  backquote, and every \<^verbatim>\<open>&\<close> in it starts a character reference: the reserved characters
  of the input appear as \<^verbatim>\<open>&#x3C;\<close>, \<^verbatim>\<open>&#x3E;\<close>, \<^verbatim>\<open>&#x26;\<close>, \<^verbatim>\<open>&#x22;\<close>, \<^verbatim>\<open>&#x27;\<close>. (The
  identifier of a \<^verbatim>\<open>StzaMessage\<close> is encoded twice, by the two assignments of its
  constructor.)
\<close>

theorem stanzas_encode_from_to_id_body:
  \<open>starts_with_attrs (fst (xml (Presence (new_StzaPresence f t i pt))))
     ''presence'' quot (he_encode f) (he_encode t)
     (if truthy i then Some (he_encode (str i)) else None) \<and>
   starts_with_attrs (fst (xml (PresenceItem (new_StzaPresenceItem f t i a r s j it))))
     ''presence'' quot (he_encode f) (he_encode t)
     (if truthy i then Some (he_encode (str i)) else None) \<and>
   starts_with_attrs (fst (xml (PresenceError (new_StzaPresenceError f t i' b e ie))))
     ''presence'' quot (he_encode f) (he_encode t)
     (if i' \<noteq> [] then Some (he_encode i') else None) \<and>
   starts_with_attrs (fst (xml (PresenceJoin (new_StzaPresenceJoin f t i pt))))
     ''presence'' quot (he_encode f) (he_encode t)
     (if truthy i then Some (he_encode (str i)) else None) \<and>
   starts_with_attrs (fst (xml (PresencePart (new_StzaPresencePart f t))))
     ''presence'' quot (he_encode f) (he_encode t) None \<and>
   starts_with_attrs (fst (xml (Message (new_StzaMessage f t idOrMsg mt uuid))))
     ''message'' quot (he_encode f) (he_encode t) (Some (message_id_text idOrMsg uuid)) \<and>
   starts_with_attrs (fst (xml (MessageSubject (new_StzaMessageSubject f t i sub))))
     ''message'' quot (he_encode f) (he_encode t) (Some (printed_id i)) \<and>
   starts_with_attrs (fst (xml (IqPing (new_StzaIqPing f t i' uuid))))
     ''iq'' apos (he_encode f) (he_encode t)
     (Some (printed_id (Some (if i' \<noteq> [] then i' else uuid)))) \<and>
   starts_with_attrs (fst (xml (IqDiscoInfo (new_StzaIqDiscoInfo f t i'))))
     ''iq'' apos (he_encode f) (he_encode t) (Some (printed_id (Some i'))) \<and>
   fst (xml (Message m)) =
     ''<message from="'' @ priv_from m @ ''" to="'' @ priv_to m
     @ ''" id="'' @ str (get_id m) @ ''" ''
     @ (if truthy (messageType m) then ''type='' @ apos @ str (messageType m) @ apos else [])
     @ ''>'' @ html m @ ''<body>''
     @ he_encode (if length (attachments m) = 1 then hd (attachments m) else body m)
     @ ''</body>''
     @ join_commas (map (\<lambda>a. ''<x xmlns='jabber:x:oob'><url>'' @ he_encode a @ ''</url></x>'')
         (attachments m))
     @ ''</message>'' \<and>
   entity_encoded (he_encode v) \<and>
   set (he_encode v) \<inter> set [CHR ''<'', CHR ''>'', CHR 0x22, CHR 0x27, CHR 0x60] = {} \<and>
   he_encode ''<>&'' = ''&#x3C;&#x3E;&#x26;'' \<and>
   he_encode [CHR 0x22, CHR 0x27, CHR 0x60] = ''&#x22;&#x27;&#x60;''\<close>
proof -
  have enc1: "he_encode ''<>&'' = ''&#x3C;&#x3E;&#x26;''"
    by (simp add: he_encode_def regexEscape_def regexBmpWhitelist_def escapeBmpSymbol_def
        hex_def hexdigit_def)
  have enc2: "he_encode [CHR 0x22, CHR 0x27, CHR 0x60] = ''&#x22;&#x27;&#x60;''"
    by (simp add: he_encode_def regexEscape_def regexBmpWhitelist_def escapeBmpSymbol_def
        hex_def hexdigit_def)
  have msg: "fst (xml (Message m)) = fst (StzaMessage_xml m)" by simp
  show ?thesis
    unfolding msg StzaMessage_xml_text
    using attrs_Presence [of f t i pt] attrs_PresenceItem [of f t i a r s j it]
      attrs_PresenceError [of f t i' b e ie] attrs_PresenceJoin [of f t i pt]
      attrs_PresencePart [of f t] attrs_Message [of f t idOrMsg mt uuid]
      attrs_MessageSubject [of f t i sub] attrs_IqPing [of f t i' uuid]
      attrs_IqDiscoInfo [of f t i'] entity_encoded_he_encode [of v]
      he_encode_no_reserved [of v] enc1 enc2
    by (intro conjI) (assumption | rule refl)+
qed

subsection \<open>The body of a message with one attachment\<close>

text \<open>
  Claim C7. A \<^verbatim>\<open>StzaMessage\<close> is built from a message record. When the record has exactly
  one attachment, the text between \<^verbatim>\<open><body>\<close> and \<^verbatim>\<open></body>\<close> is the encoded URI of the
  attachment, whatever body the record has; with no attachment or with several it is
  the encoded body of the record. Rendering stores that body in the object.
\<close>

theorem message_single_attachment_body:
  fixes msg :: IBasicProtocolMessage and f t uuid :: string and mt :: "string option"
  defines "m \<equiv> new_StzaMessage f t (Some (Inr msg)) mt uuid"
  defines "uris \<equiv> (case msg_opts msg of None \<Rightarrow> []
                     | Some opts \<Rightarrow> map uri (default_to [] (opts_attachments opts)))"
  defines "effective \<equiv> (case uris of [u] \<Rightarrow> u | _ \<Rightarrow> msg_body msg)"
  shows \<open>fst (xml (Message m)) =
     ''<message from="'' @ he_encode f @ ''" to="'' @ he_encode t
     @ ''" id="'' @ message_id_text (Some (Inr msg)) uuid @ ''" ''
     @ (if truthy mt then ''type='' @ apos @ str mt @ apos else [])
     @ ''>'' @ html m @ ''<body>'' @ he_encode effective @ ''</body>''
     @ join_commas (map (\<lambda>a. ''<x xmlns='jabber:x:oob'><url>'' @ he_encode a @ ''</url></x>'') uris)
     @ ''</message>'' \<and>
     snd (xml (Message m)) = Message (m\<lparr>body := effective\<rparr>) \<and>
     body m = msg_body msg \<and> attachments m = uris\<close>
proof -
  have a: "attachments m = uris" and b: "body m = msg_body msg"
    by (simp_all add: m_def uris_def new_StzaMessage_record)
  have e: "(if length uris = 1 then hd uris else msg_body msg) = effective"
    unfolding effective_def by (cases uris rule: list.exhaust; cases "tl uris") auto
  have text_eq: "fst (xml (Message m)) = fst (StzaMessage_xml m)" by simp
  have upd: "snd (StzaMessage_xml m) = m\<lparr>body := effective\<rparr>"
    using e by (auto simp: StzaMessage_xml_def Let_def a b)
  show ?thesis
    unfolding text_eq StzaMessage_xml_text a b e
    using upd a b
    by (simp add: m_def new_StzaMessage_fields new_StzaMessage_id)
qed

subsection \<open>The jid of a presence item\<close>

text \<open>
  Claim C6, as amended. The item element of a \<^verbatim>\<open>StzaPresenceItem\<close> has no attribute
  \<^verbatim>\<open>jid\<close> when the jid is the empty string (or absent); otherwise it has the attribute
  \<^verbatim>\<open>jid\<close> with the jid as it was given, character by character: the class does not
  encode it.
\<close>

theorem presence_item_jid_verbatim:
  fixes f t :: string and i a r j it :: "string option" and s :: "bool option"
  defines "p \<equiv> new_StzaPresenceItem f t i a r s j it"
  shows \<open>StzaPresenceItem_xContent p =
     ''<item affiliation='' @ apos @ default_to ''member'' a @ apos
     @ (if default_to [] j = [] then [] else '' jid='' @ apos @ default_to [] j @ apos)
     @ '' role='' @ apos @ default_to ''participant'' r @ apos @ ''/>''
     @ (if default_to False s then ''<status code='110'/>'' else []) \<and>
   fst (xml (PresenceItem p)) =
     ''<presence from="'' @ he_encode f @ ''" to="'' @ he_encode t @ ''"''
     @ (if truthy i then '' id="'' @ he_encode (str i) @ ''"'' else [])
     @ (if default_to [] it = [] then [] else '' type='' @ apos @ default_to [] it @ apos)
     @ ''><x xmlns='http://jabber.org/protocol/muc#user'>''
     @ StzaPresenceItem_xContent p @ ''</x></presence>''\<close>
proof -
  have x: \<open>StzaPresenceItem_xContent p =
     ''<item affiliation='' @ apos @ default_to ''member'' a @ apos
     @ (if default_to [] j = [] then [] else '' jid='' @ apos @ default_to [] j @ apos)
     @ '' role='' @ apos @ default_to ''participant'' r @ apos @ ''/>''
     @ (if default_to False s then ''<status code='110'/>'' else [])\<close>
    by (simp add: p_def StzaPresenceItem_xContent_def new_StzaPresenceItem_def base_defs Let_def)
  have ne: "StzaPresenceItem_xContent p \<noteq> []"
    unfolding x by simp
  have y: \<open>fst (xml (PresenceItem p)) =
     ''<presence from="'' @ he_encode f @ ''" to="'' @ he_encode t @ ''"''
     @ (if truthy i then '' id="'' @ he_encode (str i) @ ''"'' else [])
     @ (if default_to [] it = [] then [] else '' type='' @ apos @ default_to [] it @ apos)
     @ ''><x xmlns='http://jabber.org/protocol/muc#user'>''
     @ StzaPresenceItem_xContent p @ ''</x></presence>''\<close>
    using ne
    by (simp add: StzaPresenceItem_xml_def StzaPresence_xml_with_def Let_def)
       (simp add: p_def new_StzaPresenceItem_def base_defs he_encode_Nil_iff apos_def
          split: option.splits)
  from x y show ?thesis by (rule conjI)
qed

text \<open>
  The claim C6 as it was stated asks for the encoded jid. The jid \<^verbatim>\<open><&>\<close> is rendered as
  it is, though its encoding is another text and it is not entity-encoded itself.
\<close>

theorem presence_item_jid_raw_counterexample:
  \<open>fst (xml (PresenceItem
      (new_StzaPresenceItem ''room@conf/nick'' ''bob@x.org/phone'' None None None None
         (Some ''<&>'') None))) =
   ''<presence from="room@conf/nick" to="bob@x.org/phone">''
   @ ''<x xmlns='http://jabber.org/protocol/muc#user'>''
   @ ''<item affiliation='member' jid='<&>' role='participant'/></x></presence>'' \<and>
   he_encode ''<&>'' = ''&#x3C;&#x26;&#x3E;'' \<and>
   \<not> entity_encoded ''<&>''\<close>
  by (simp add: StzaPresenceItem_xml_def StzaPresence_xml_with_def StzaPresenceItem_xContent_def
      new_StzaPresenceItem_def base_defs Let_def apos_def he_encode_def regexEscape_def
      regexBmpWhitelist_def escapeBmpSymbol_def hex_def hexdigit_def entity_encoded_def)

subsection \<open>Service discovery\<close>

lemma foldl_append_map:
  "foldl (\<lambda>acc x. acc @ g x) a xs = a @ concat (map g xs)"
  by (induction xs arbitrary: a) simp_all

lemma StzaIqDiscoInfo_queryContent_concat:
  \<open>StzaIqDiscoInfo_queryContent this =
     concat (map (\<lambda>ident. ''<identity category='' @ apos @ category (snd ident) @ apos
            @ '' type='' @ apos @ type (snd ident) @ apos
            @ '' name='' @ apos @ name (snd ident) @ apos @ ''/>'') (identity this))
     @ concat (map (\<lambda>feat. ''<feature var='' @ apos @ feat @ apos @ ''/>'') (feature this))\<close>
  unfolding StzaIqDiscoInfo_queryContent_def Let_def foldl_append_map by simp

text \<open>
  Claim C8, as amended. Rendering a \<^verbatim>\<open>StzaIqDiscoInfo\<close> leaves the object as it is and
  gives the \<^verbatim>\<open>iq\<close> element with one \<^verbatim>\<open><identity>\<close> element for every entry of the set
  \<^verbatim>\<open>identity\<close> and one \<^verbatim>\<open><feature>\<close> element for every entry of the set \<^verbatim>\<open>feature\<close>, in
  the order of insertion; rendering it again gives the same text. Adding a feature that
  is in the set already, or an identity object that is in the set already, does not
  change the rendered text. Adding an identity object that is not in the set, whatever
  its fields (also when an entry of the set has the same fields), adds one
  \<^verbatim>\<open><identity>\<close> element at the end.
\<close>

theorem disco_info_render_repeatable:
  fixes d :: StzaIqDiscoInfo
  defines \<open>element \<equiv> \<lambda>t. ''<identity category='' @ apos @ category t @ apos
            @ '' type='' @ apos @ type t @ apos
            @ '' name='' @ apos @ name t @ apos @ ''/>''\<close>
  defines \<open>text \<equiv> \<lambda>(triples :: disco_identity list) feats.
     ''<iq from='' @ apos @ priv_from d @ apos @ '' to='' @ apos @ priv_to d @ apos
     @ '' id='' @ apos @ str (get_id d) @ apos
     @ '' type='' @ apos @ iqType d @ apos @ ''>'' @ newline
     @ ''        <query xmlns='http://jabber.org/protocol/disco#'' @ queryType d @ apos
     @ ''>'' @ newline
     @ ''        '' @ concat (map element triples)
     @ concat (map (\<lambda>feat. ''<feature var='' @ apos @ feat @ apos @ ''/>'') feats)
     @ ''</query></iq>''\<close>
  shows
  "xml (IqDiscoInfo d) = (text (map snd (identity d)) (feature d), IqDiscoInfo d) \<and>
   fst (xml (snd (xml (IqDiscoInfo d)))) = fst (xml (IqDiscoInfo d)) \<and>
   fst (xml (IqDiscoInfo (feature_add feat d))) =
     text (map snd (identity d)) (if feat \<in> set (feature d) then feature d else feature d @ [feat]) \<and>
   fst (xml (IqDiscoInfo (identity_add (ref, t) d))) =
     text (if (ref, t) \<in> set (identity d) then map snd (identity d)
           else map snd (identity d) @ [t]) (feature d) \<and>
   (ref \<notin> fst ` set (identity d) \<longrightarrow>
      fst (xml (IqDiscoInfo (identity_add (ref, t) d))) =
        text (map snd (identity d) @ [t]) (feature d))"
proof -
  have render: "fst (xml (IqDiscoInfo x)) =
      ''<iq from='' @ apos @ priv_from x @ apos @ '' to='' @ apos @ priv_to x @ apos
     @ '' id='' @ apos @ str (get_id x) @ apos
     @ '' type='' @ apos @ iqType x @ apos @ ''>'' @ newline
     @ ''        <query xmlns='http://jabber.org/protocol/disco#'' @ queryType x @ apos
     @ ''>'' @ newline
     @ ''        '' @ concat (map element (map snd (identity x)))
     @ concat (map (\<lambda>feat. ''<feature var='' @ apos @ feat @ apos @ ''/>'') (feature x))
     @ ''</query></iq>''" for x
    by (simp add: StzaIqDiscoInfo_xml_def StzaIqDisco_xml_with_def
        StzaIqDiscoInfo_queryContent_concat get_from_def get_to_def element_def comp_def)
  have a: "xml (IqDiscoInfo d) = (text (map snd (identity d)) (feature d), IqDiscoInfo d)"
    using render [of d] by (simp add: text_def)
  have b: "fst (xml (snd (xml (IqDiscoInfo d)))) = fst (xml (IqDiscoInfo d))"
    by simp
  have c: "fst (xml (IqDiscoInfo (feature_add feat d))) =
     text (map snd (identity d)) (if feat \<in> set (feature d) then feature d else feature d @ [feat])"
    unfolding render by (simp add: text_def feature_add_def Set_add_def get_id_def)
  have e: "fst (xml (IqDiscoInfo (identity_add (ref, t) d))) =
     text (if (ref, t) \<in> set (identity d) then map snd (identity d)
           else map snd (identity d) @ [t]) (feature d)"
    unfolding render by (simp add: text_def identity_add_def Set_add_def get_id_def)
  have f: "ref \<notin> fst ` set (identity d) \<Longrightarrow> (ref, t) \<notin> set (identity d)"
    by force
  from a b c e f show ?thesis by simp
qed

theorem disco_info_render_repeatable_witness:
  \<open>fst (xml (IqDiscoInfo (feature_add ''muc_persistent''
      (feature_add ''muc_persistent''
          (identity_add (0, \<lparr>category = ''conference'', type = ''text'', name = ''room''\<rparr>)
            (new_StzaIqDiscoInfo ''room@conf'' ''bob@x.org/phone'' ''q1'')))))) =
   ''<iq from='room@conf' to='bob@x.org/phone' id='q1' type='result'>'' @ newline
   @ ''        <query xmlns='http://jabber.org/protocol/disco#info'>'' @ newline
   @ ''        <identity category='conference' type='text' name='room'/>''
   @ ''<feature var='muc_persistent'/></query></iq>'' \<and>
   fst (xml (IqDiscoInfo
     (identity_add (0, \<lparr>category = ''conference'', type = ''text'', name = ''room''\<rparr>)
      (feature_add ''muc_persistent''
        (identity_add (0, \<lparr>category = ''conference'', type = ''text'', name = ''room''\<rparr>)
          (new_StzaIqDiscoInfo ''room@conf'' ''bob@x.org/phone'' ''q1'')))))) =
   ''<iq from='room@conf' to='bob@x.org/phone' id='q1' type='result'>'' @ newline
   @ ''        <query xmlns='http://jabber.org/protocol/disco#info'>'' @ newline
   @ ''        <identity category='conference' type='text' name='room'/>''
   @ ''<feature var='muc_persistent'/></query></iq>'' \<and>
   fst (xml (IqDiscoInfo
     (identity_add (1, \<lparr>category = ''conference'', type = ''text'', name = ''room''\<rparr>)
      (feature_add ''muc_persistent''
        (identity_add (0, \<lparr>category = ''conference'', type = ''text'', name = ''room''\<rparr>)
          (new_StzaIqDiscoInfo ''room@conf'' ''bob@x.org/phone'' ''q1'')))))) =
   ''<iq from='room@conf' to='bob@x.org/phone' id='q1' type='result'>'' @ newline
   @ ''        <query xmlns='http://jabber.org/protocol/disco#info'>'' @ newline
   @ ''        <identity category='conference' type='text' name='room'/>''
   @ ''<identity category='conference' type='text' name='room'/>''
   @ ''<feature var='muc_persistent'/></query></iq>''\<close>
proof -
  define D where "D = feature_add ''muc_persistent''
        (identity_add (0, \<lparr>category = ''conference'', type = ''text'', name = ''room''\<rparr>)
          (new_StzaIqDiscoInfo ''room@conf'' ''bob@x.org/phone'' ''q1''))"
  have fields:
    "identity D = [(0, \<lparr>category = ''conference'', type = ''text'', name = ''room''\<rparr>)]"
    "feature D = [''muc_persistent'']"
    "priv_from D = ''room@conf''" "priv_to D = ''bob@x.org/phone''" "get_id D = Some ''q1''"
    "iqType D = ''result''" "queryType D = ''info''"
    by (simp_all add: D_def new_StzaIqDiscoInfo_def feature_add_def identity_add_def Set_add_def
        base_defs he_encode_def regexEscape_def regexBmpWhitelist_def)
  have \<open>fst (xml (IqDiscoInfo (feature_add ''muc_persistent'' D))) =
   ''<iq from='room@conf' to='bob@x.org/phone' id='q1' type='result'>'' @ newline
   @ ''        <query xmlns='http://jabber.org/protocol/disco#info'>'' @ newline
   @ ''        <identity category='conference' type='text' name='room'/>''
   @ ''<feature var='muc_persistent'/></query></iq>'' \<and>
   fst (xml (IqDiscoInfo
     (identity_add (0, \<lparr>category = ''conference'', type = ''text'', name = ''room''\<rparr>) D))) =
   ''<iq from='room@conf' to='bob@x.org/phone' id='q1' type='result'>'' @ newline
   @ ''        <query xmlns='http://jabber.org/protocol/disco#info'>'' @ newline
   @ ''        <identity category='conference' type='text' name='room'/>''
   @ ''<feature var='muc_persistent'/></query></iq>'' \<and>
   fst (xml (IqDiscoInfo
     (identity_add (1, \<lparr>category = ''conference'', type = ''text'', name = ''room''\<rparr>) D))) =
   ''<iq from='room@conf' to='bob@x.org/phone' id='q1' type='result'>'' @ newline
   @ ''        <query xmlns='http://jabber.org/protocol/disco#info'>'' @ newline
   @ ''        <identity category='conference' type='text' name='room'/>''
   @ ''<identity category='conference' type='text' name='room'/>''
   @ ''<feature var='muc_persistent'/></query></iq>''\<close>
    using disco_info_render_repeatable [of D "''muc_persistent''" 0 "\<lparr>category = ''conference'', type = ''text'', name = ''room''\<rparr>"]
      disco_info_render_repeatable [of D "''muc_persistent''" 1 "\<lparr>category = ''conference'', type = ''text'', name = ''room''\<rparr>"]
    by (simp add: fields str_def apos_def newline_def)
  then show ?thesis unfolding D_def .
qed

text \<open>
  The claim C8 as it was stated counts a triple as present when its three fields are. A
  second object with the fields of the first one is a new entry of the set, and the
  rendered text has two \<^verbatim>\<open><identity>\<close> elements where it had one.
\<close>

theorem disco_info_equal_identity_counterexample:
  \<open>occurrences ''<identity ''
     (fst (xml (IqDiscoInfo
        (identity_add (0, \<lparr>category = ''conference'', type = ''text'', name = ''room''\<rparr>)
          (new_StzaIqDiscoInfo ''room@conf'' ''bob@x.org/phone'' ''q1''))))) = 1 \<and>
   occurrences ''<identity ''
     (fst (xml (IqDiscoInfo
        (identity_add (1, \<lparr>category = ''conference'', type = ''text'', name = ''room''\<rparr>)
          (identity_add (0, \<lparr>category = ''conference'', type = ''text'', name = ''room''\<rparr>)
            (new_StzaIqDiscoInfo ''room@conf'' ''bob@x.org/phone'' ''q1'')))))) = 2\<close>
  by (simp add: StzaIqDiscoInfo_xml_def StzaIqDisco_xml_with_def StzaIqDiscoInfo_queryContent_def
        new_StzaIqDiscoInfo_def identity_add_def Set_add_def base_defs Let_def
        apos_def newline_def he_encode_def regexEscape_def regexBmpWhitelist_def)

end
